theory Spec2Isabelle
  imports
    Complex_Main
    "HOL-Library.Char_ord"
    "HOL-Library.List_Lexorder"
begin

section \<open>Data model of the recurring-transaction routes\<close>

text \<open>
  The routes of \<^verbatim>\<open>backend/app/routes/transactions.py\<close> work on four tables. A table
  is the list of its rows in insertion (rowid) order. Calendar days are the texts
  \<^verbatim>\<open>YYYY-MM-DD\<close> the code stores, and they are compared as the code and the SQL
  engine compare them: as strings, lexicographically (the order of \<^typ>\<open>char list\<close>).
  Amounts are exact rationals. A category reference is nullable: \<open>None\<close> is SQL's
  \<^verbatim>\<open>NULL\<close>, which the comparison \<^verbatim>\<open>=\<close> of a \<^verbatim>\<open>WHERE\<close> clause never matches.
\<close>

record recurring_row =
  rec_id :: string
  rec_budget_id :: string
  rec_category_id :: "string option"
  rec_title :: string
  rec_amount :: rat
  rec_transaction_type :: string
  rec_frequency :: string
  rec_day :: "int option"
  rec_active :: int
  rec_created_at :: string

record version_row =
  ver_id :: string
  ver_recurring_transaction_id :: string
  ver_title :: string
  ver_amount :: rat
  ver_category_id :: "string option"
  ver_frequency :: string
  ver_day :: "int option"
  effective_from :: string
  effective_until :: "string option"
  ver_created_at :: string
  change_reason :: "string option"

record transaction_row =
  tx_id :: string
  tx_budget_id :: string
  tx_category_id :: "string option"
  tx_title :: string
  tx_amount :: rat
  tx_transaction_type :: string
  tx_date :: string
  tx_comment :: "string option"
  tx_is_recurring :: int
  tx_paid_by_user_id :: "string option"
  tx_created_at :: string

record category_row =
  cat_id :: string
  cat_name :: string
  cat_parent_id :: "string option"

record db =
  recurring_transactions :: "recurring_row list"
  recurring_transaction_versions :: "version_row list"
  transactions :: "transaction_row list"
  categories :: "category_row list"

text \<open>The request bodies and the response of the recurring routes.\<close>

record create_recurring_payload =
  c_category_id :: "string option"
  c_title :: string
  c_amount :: rat
  c_transaction_type :: string
  c_frequency :: string
  c_day :: "int option"

record update_recurring_payload =
  u_title :: "string option"
  u_amount :: "rat option"
  u_category_id :: "string option"
  u_frequency :: "string option"
  u_day :: "int option"
  u_effective_date :: "string option"
  u_change_reason :: "string option"

record recurring_with_category =
  row :: recurring_row
  category_name :: string
  parent_category_id :: "string option"
  parent_category_name :: "string option"
  pending_version :: "version_row option"

text \<open>
  What a route can raise: HTTP 404 is the spec's \<^verbatim>\<open>NotFoundError\<close>, HTTP 400 its
  \<^verbatim>\<open>InvalidStateError\<close>; \<^verbatim>\<open>ValueError\<close> comes from parsing a creation timestamp
  and \<^verbatim>\<open>AttributeError\<close> from reading a column of a row that was not found.
\<close>

datatype error = NotFoundError | InvalidStateError | ValueError | AttributeError

text \<open>
  The comparison \<^verbatim>\<open>column = :parameter\<close> of a \<^verbatim>\<open>WHERE\<close> clause on a nullable
  column: it selects a row only when both sides are present and equal.
\<close>

definition sql_eq :: "'a option \<Rightarrow> 'a option \<Rightarrow> bool" where
  "sql_eq a b = (case a of None \<Rightarrow> False
                 | Some x \<Rightarrow> (case b of None \<Rightarrow> False | Some y \<Rightarrow> x = y))"

section \<open>The calendar functions the code calls\<close>

text \<open>
  \<^verbatim>\<open>calendar.isleap\<close>, \<^verbatim>\<open>calendar.monthrange(y, m)[1]\<close> and
  \<^verbatim>\<open>date.weekday()\<close> (Monday is 0) of the Python library, the last through the
  proleptic Gregorian ordinal as \<^verbatim>\<open>datetime\<close> computes it. They are applied to
  the reading of the clock, a date: the month lies between 1 and 12 and the day in the month.
\<close>

definition isleap :: "int \<Rightarrow> bool" where
  "isleap year \<longleftrightarrow> year mod 4 = 0 \<and> (year mod 100 \<noteq> 0 \<or> year mod 400 = 0)"

definition mdays :: "int list" where
  "mdays = [0, 31, 28, 31, 30, 31, 30, 31, 31, 30, 31, 30, 31]"

definition monthrange_ndays :: "int \<Rightarrow> int \<Rightarrow> int" where
  "monthrange_ndays year month =
     mdays ! nat month + (if month = 2 \<and> isleap year then 1 else 0)"

definition days_before_year :: "int \<Rightarrow> int" where
  "days_before_year year =
     (let y = year - 1 in y * 365 + y div 4 - y div 100 + y div 400)"

definition DAYS_BEFORE_MONTH :: "int list" where
  "DAYS_BEFORE_MONTH = [-1, 0, 31, 59, 90, 120, 151, 181, 212, 243, 273, 304, 334]"

definition days_before_month :: "int \<Rightarrow> int \<Rightarrow> int" where
  "days_before_month year month =
     DAYS_BEFORE_MONTH ! nat month + (if month > 2 \<and> isleap year then 1 else 0)"

definition toordinal :: "int \<Rightarrow> int \<Rightarrow> int \<Rightarrow> int" where
  "toordinal year month day = days_before_year year + days_before_month year month + day"

definition weekday :: "int \<Rightarrow> int \<Rightarrow> int \<Rightarrow> int" where
  "weekday year month day = (toordinal year month day + 6) mod 7"

section \<open>Formatting and parsing of dates\<close>

text \<open>
  \<^verbatim>\<open>f"{n}"\<close> and \<^verbatim>\<open>f"{n:02d}"\<close> on Python integers: decimal digits, a minus
  sign for a negative number, zeros on the left up to width two (the sign counts).
\<close>

definition digit_char :: "nat \<Rightarrow> char" where
  "digit_char d = ''0123456789'' ! (d mod 10)"

fun str_nat :: "nat \<Rightarrow> string" where
  "str_nat n = (if n < 10 then [digit_char n] else str_nat (n div 10) @ [digit_char n])"

declare str_nat.simps [simp del]

definition fmt_d :: "int \<Rightarrow> string" where
  "fmt_d n = (if n < 0 then CHR ''-'' # str_nat (nat (- n)) else str_nat (nat n))"

definition fmt_02d :: "int \<Rightarrow> string" where
  "fmt_02d n =
     (if n < 0 then CHR ''-'' # str_nat (nat (- n))
      else if n < 10 then CHR ''0'' # str_nat (nat n)
      else str_nat (nat n))"

definition fmt_date :: "int \<Rightarrow> int \<Rightarrow> int \<Rightarrow> string" where
  "fmt_date year month day = fmt_d year @ ''-'' @ fmt_02d month @ ''-'' @ fmt_02d day"

text \<open>
  \<^verbatim>\<open>created_at.replace('Z', '+00:00')\<close> replaces every \<^verbatim>\<open>Z\<close> of the text. The
  parser \<^verbatim>\<open>datetime.fromisoformat\<close> of the Python library is not modelled: the functions
  that call it take it as the parameter \<open>fromisoformat\<close>, which returns the date fields
  of the parsed timestamp or raises \<^verbatim>\<open>ValueError\<close>, and what is proved of them holds for
  every such parser.
\<close>

record datetime =
  dt_year :: int
  dt_month :: int
  dt_day :: int

definition replace_Z :: "string \<Rightarrow> string" where
  "replace_Z s = concat (map (\<lambda>c. if c = CHR ''Z'' then ''+00:00'' else [c]) s)"

section \<open>The recurrence rules of \<^verbatim>\<open>process_recurring_transactions\<close>\<close>

text \<open>Python's \<^verbatim>\<open>rec.day or d\<close>: the default replaces a missing day and the day 0.\<close>

definition day_or :: "int option \<Rightarrow> int \<Rightarrow> int" where
  "day_or day d = (case day of None \<Rightarrow> d | Some v \<Rightarrow> if v = 0 then d else v)"

text \<open>
  The body of the loop over the active templates up to the list \<^verbatim>\<open>dates_to_create\<close>,
  for the clock reading \<^verbatim>\<open>(current_year, current_month, current_day)\<close>. The yearly
  branch parses the creation timestamp before it tests anything.
\<close>

definition dates_to_create ::
  "(string \<Rightarrow> error + datetime) \<Rightarrow> int \<Rightarrow> int \<Rightarrow> int \<Rightarrow> recurring_row \<Rightarrow> error + string list" where
  "dates_to_create fromisoformat current_year current_month current_day rec =
     (let last_day_of_month = monthrange_ndays current_year current_month in
      if rec_frequency rec = ''monthly'' then
        (let target_day = min (day_or (rec_day rec) 1) last_day_of_month in
         Inr (if target_day \<le> current_day
              then [fmt_date current_year current_month target_day] else []))
      else if rec_frequency rec = ''weekly'' then
        (let rec_day_of_week = day_or (rec_day rec) 0 in
         Inr (map (fmt_date current_year current_month)
                (filter (\<lambda>day. weekday current_year current_month day = rec_day_of_week)
                   [1..current_day])))
      else if rec_frequency rec = ''yearly'' then
        (let target_day = min (day_or (rec_day rec) 1) last_day_of_month in
         case fromisoformat (replace_Z (rec_created_at rec)) of
           Inl e \<Rightarrow> Inl e
         | Inr rec_created \<Rightarrow>
             Inr (if dt_month rec_created = current_month \<and> target_day \<le> current_day
                  then [fmt_date current_year current_month target_day] else []))
      else Inr [])"

section \<open>Materialization\<close>

text \<open>
  The existence check before every insert: the first transaction of the budget with the
  template's category, title and amount, the date, and \<^verbatim>\<open>is_recurring = 1\<close>. The
  category is compared by SQL's \<^verbatim>\<open>=\<close>: a template without category matches no row.
\<close>

definition existing_transaction :: "db \<Rightarrow> string \<Rightarrow> recurring_row \<Rightarrow> string \<Rightarrow> transaction_row option" where
  "existing_transaction s budget_id rec date_str =
     find (\<lambda>t. tx_budget_id t = budget_id \<and> sql_eq (tx_category_id t) (rec_category_id rec)
               \<and> tx_title t = rec_title rec \<and> tx_amount t = rec_amount rec
               \<and> tx_date t = date_str \<and> tx_is_recurring t = 1)
       (transactions s)"

definition generated_transaction :: "string \<Rightarrow> string \<Rightarrow> string \<Rightarrow> recurring_row \<Rightarrow> string \<Rightarrow> transaction_row" where
  "generated_transaction transaction_id created_at budget_id rec date_str =
     \<lparr>tx_id = transaction_id, tx_budget_id = budget_id, tx_category_id = rec_category_id rec,
      tx_title = rec_title rec, tx_amount = rec_amount rec,
      tx_transaction_type = rec_transaction_type rec, tx_date = date_str,
      tx_comment = Some (''Auto-generated from recurring: '' @ rec_title rec),
      tx_is_recurring = 1, tx_paid_by_user_id = None, tx_created_at = created_at\<rparr>"

text \<open>
  The inner loop over \<^verbatim>\<open>dates_to_create\<close>. The state is the database and the list
  \<^verbatim>\<open>created_transactions\<close>; the \<open>k\<close>-th insert of a call takes its identifier from
  \<open>uuid4 k\<close> and its timestamp from \<open>now_iso k\<close>.
\<close>

fun create_missing ::
  "(nat \<Rightarrow> string) \<Rightarrow> (nat \<Rightarrow> string) \<Rightarrow> string \<Rightarrow> recurring_row \<Rightarrow> string list
     \<Rightarrow> db \<times> transaction_row list \<Rightarrow> db \<times> transaction_row list" where
  "create_missing uuid4 now_iso budget_id rec [] acc = acc"
| "create_missing uuid4 now_iso budget_id rec (date_str # ds) (s, created) =
     (case existing_transaction s budget_id rec date_str of
        Some _ \<Rightarrow> create_missing uuid4 now_iso budget_id rec ds (s, created)
      | None \<Rightarrow>
          (let t = generated_transaction (uuid4 (length created)) (now_iso (length created))
                     budget_id rec date_str
           in create_missing uuid4 now_iso budget_id rec ds
                (s\<lparr>transactions := transactions s @ [t]\<rparr>, created @ [t])))"

text \<open>The outer loop; an exception leaves the loop and nothing is committed.\<close>

fun process_rows ::
  "(string \<Rightarrow> error + datetime) \<Rightarrow> int \<Rightarrow> int \<Rightarrow> int \<Rightarrow> (nat \<Rightarrow> string) \<Rightarrow> (nat \<Rightarrow> string)
     \<Rightarrow> string \<Rightarrow> recurring_row list
     \<Rightarrow> db \<times> transaction_row list \<Rightarrow> error + db \<times> transaction_row list" where
  "process_rows fromisoformat y m d uuid4 now_iso budget_id [] acc = Inr acc"
| "process_rows fromisoformat y m d uuid4 now_iso budget_id (rec # recs) acc =
     (case dates_to_create fromisoformat y m d rec of
        Inl e \<Rightarrow> Inl e
      | Inr dates \<Rightarrow>
          process_rows fromisoformat y m d uuid4 now_iso budget_id recs
            (create_missing uuid4 now_iso budget_id rec dates acc))"

definition active_recurring :: "db \<Rightarrow> string \<Rightarrow> recurring_row list" where
  "active_recurring s budget_id =
     filter (\<lambda>r. rec_budget_id r = budget_id \<and> rec_active r = 1) (recurring_transactions s)"

definition process_recurring_transactions ::
  "(string \<Rightarrow> error + datetime) \<Rightarrow> int \<Rightarrow> int \<Rightarrow> int \<Rightarrow> (nat \<Rightarrow> string) \<Rightarrow> (nat \<Rightarrow> string)
     \<Rightarrow> string \<Rightarrow> db \<Rightarrow> error + db \<times> transaction_row list" where
  "process_recurring_transactions fromisoformat current_year current_month current_day
       uuid4 now_iso budget_id s =
     process_rows fromisoformat current_year current_month current_day uuid4 now_iso budget_id
       (active_recurring s budget_id) (s, [])"

section \<open>The version store\<close>

text \<open>
  The pending-version query: the open versions of the template that start after today,
  ordered by \<^verbatim>\<open>effective_from\<close>, first row. Rows with the same
  \<^verbatim>\<open>effective_from\<close> keep their table order (the sort is stable), as SQLite's
  sorter returns them.
\<close>

definition pending_version_query :: "db \<Rightarrow> string \<Rightarrow> string \<Rightarrow> version_row option" where
  "pending_version_query s recurring_id today =
     (case sort_key effective_from
             (filter (\<lambda>v. ver_recurring_transaction_id v = recurring_id
                          \<and> effective_from v > today \<and> effective_until v = None)
                (recurring_transaction_versions s)) of
        [] \<Rightarrow> None
      | v # _ \<Rightarrow> Some v)"

definition select_recurring :: "db \<Rightarrow> string \<Rightarrow> recurring_row option" where
  "select_recurring s recurring_id =
     find (\<lambda>r. rec_id r = recurring_id) (recurring_transactions s)"

text \<open>The two \<^verbatim>\<open>LEFT JOIN\<close>s on the categories and the shaping of the response.\<close>

definition with_category :: "db \<Rightarrow> recurring_row \<Rightarrow> version_row option \<Rightarrow> recurring_with_category" where
  "with_category s r pending =
     (let c = (case rec_category_id r of None \<Rightarrow> None
               | Some category_id \<Rightarrow> find (\<lambda>c. cat_id c = category_id) (categories s));
          pc = (case c of None \<Rightarrow> None
                | Some c' \<Rightarrow> (case cat_parent_id c' of None \<Rightarrow> None
                              | Some p \<Rightarrow> find (\<lambda>x. cat_id x = p) (categories s)))
      in \<lparr>row = r,
          category_name = (case c of None \<Rightarrow> ''Unknown''
                           | Some c' \<Rightarrow> if cat_name c' = [] then ''Unknown'' else cat_name c'),
          parent_category_id = (case c of None \<Rightarrow> None | Some c' \<Rightarrow> cat_parent_id c'),
          parent_category_name = map_option cat_name pc,
          pending_version = pending\<rparr>)"

text \<open>\<^verbatim>\<open>create_recurring_transaction\<close>: the identifier and the timestamp come from outside.\<close>

definition create_recurring_transaction ::
  "string \<Rightarrow> string \<Rightarrow> string \<Rightarrow> create_recurring_payload \<Rightarrow> db \<Rightarrow> error + db \<times> recurring_with_category" where
  "create_recurring_transaction recurring_id now budget_id payload s =
     (let s' = s\<lparr>recurring_transactions := recurring_transactions s @
                 [\<lparr>rec_id = recurring_id, rec_budget_id = budget_id,
                   rec_category_id = c_category_id payload, rec_title = c_title payload,
                   rec_amount = c_amount payload,
                   rec_transaction_type = c_transaction_type payload,
                   rec_frequency = c_frequency payload, rec_day = c_day payload,
                   rec_active = 1, rec_created_at = now\<rparr>]\<rparr>
      in case select_recurring s' recurring_id of
           None \<Rightarrow> Inl AttributeError
         | Some r \<Rightarrow> Inr (s', with_category s' r None))"

text \<open>\<^verbatim>\<open>delete_recurring_transaction\<close>: one \<^verbatim>\<open>DELETE\<close>, no existence check.\<close>

definition delete_recurring_transaction :: "string \<Rightarrow> db \<Rightarrow> error + db" where
  "delete_recurring_transaction recurring_id s =
     Inr (s\<lparr>recurring_transactions :=
              filter (\<lambda>r. rec_id r \<noteq> recurring_id) (recurring_transactions s)\<rparr>)"

text \<open>
  \<^verbatim>\<open>update_recurring_transaction\<close> (the spec's \<^verbatim>\<open>submit_update\<close>). \<open>today\<close> is
  \<^verbatim>\<open>now.strftime("%Y-%m-%d")\<close>, \<open>created_at\<close> is \<^verbatim>\<open>now.isoformat()\<close> and
  \<open>version_id\<close> the fresh identifier.
\<close>

definition close_version :: "string \<Rightarrow> string \<Rightarrow> version_row \<Rightarrow> version_row" where
  "close_version recurring_id today v =
     (if ver_recurring_transaction_id v = recurring_id \<and> effective_until v = None
         \<and> effective_from v \<le> today
      then v\<lparr>effective_until := Some today\<rparr> else v)"

definition close_current_versions :: "string \<Rightarrow> string \<Rightarrow> version_row list \<Rightarrow> version_row list" where
  "close_current_versions recurring_id today vs = map (close_version recurring_id today) vs"

definition update_base ::
  "string \<Rightarrow> string \<Rightarrow> rat \<Rightarrow> string option \<Rightarrow> string \<Rightarrow> int option
     \<Rightarrow> recurring_row list \<Rightarrow> recurring_row list" where
  "update_base recurring_id new_title new_amount new_category_id new_frequency new_day rs =
     map (\<lambda>r. if rec_id r = recurring_id
               then r\<lparr>rec_title := new_title, rec_amount := new_amount,
                      rec_category_id := new_category_id, rec_frequency := new_frequency,
                      rec_day := new_day\<rparr>
               else r) rs"

definition or_else :: "'a option \<Rightarrow> 'a \<Rightarrow> 'a" where
  "or_else x d = (case x of None \<Rightarrow> d | Some v \<Rightarrow> v)"

definition effective_date_of :: "update_recurring_payload \<Rightarrow> string \<Rightarrow> string" where
  "effective_date_of payload today =
     (case u_effective_date payload of None \<Rightarrow> today | Some e \<Rightarrow> if e = [] then today else e)"

definition new_version ::
  "string \<Rightarrow> string \<Rightarrow> string \<Rightarrow> string \<Rightarrow> update_recurring_payload \<Rightarrow> recurring_row \<Rightarrow> version_row" where
  "new_version today created_at version_id recurring_id payload row0 =
     \<lparr>ver_id = version_id, ver_recurring_transaction_id = recurring_id,
      ver_title = or_else (u_title payload) (rec_title row0),
      ver_amount = or_else (u_amount payload) (rec_amount row0),
      ver_category_id = (case u_category_id payload of None \<Rightarrow> rec_category_id row0
                         | Some c \<Rightarrow> Some c),
      ver_frequency = or_else (u_frequency payload) (rec_frequency row0),
      ver_day = (case u_day payload of None \<Rightarrow> rec_day row0 | Some d \<Rightarrow> Some d),
      effective_from = effective_date_of payload today, effective_until = None,
      ver_created_at = created_at, change_reason = u_change_reason payload\<rparr>"

definition update_recurring_transaction ::
  "string \<Rightarrow> string \<Rightarrow> string \<Rightarrow> string \<Rightarrow> update_recurring_payload \<Rightarrow> db
     \<Rightarrow> error + db \<times> recurring_with_category" where
  "update_recurring_transaction today created_at version_id recurring_id payload s =
     (case select_recurring s recurring_id of
        None \<Rightarrow> Inl NotFoundError
      | Some row0 \<Rightarrow>
          (let nv = new_version today created_at version_id recurring_id payload row0;
               s' = (if effective_date_of payload today \<le> today
                     then s\<lparr>recurring_transaction_versions :=
                              close_current_versions recurring_id today
                                (recurring_transaction_versions s) @ [nv],
                            recurring_transactions :=
                              update_base recurring_id (ver_title nv) (ver_amount nv)
                                (ver_category_id nv) (ver_frequency nv) (ver_day nv)
                                (recurring_transactions s)\<rparr>
                     else s\<lparr>recurring_transaction_versions :=
                              recurring_transaction_versions s @ [nv]\<rparr>)
           in case select_recurring s' recurring_id of
                None \<Rightarrow> Inl AttributeError
              | Some r \<Rightarrow> Inr (s', with_category s' r (pending_version_query s' recurring_id today))))"

text \<open>
  \<^verbatim>\<open>get_recurring_versions\<close> (the spec's \<^verbatim>\<open>fetch_history\<close>) and
  \<^verbatim>\<open>delete_recurring_version\<close> (the spec's \<^verbatim>\<open>cancel_pending\<close>). The history is
  ordered by \<^verbatim>\<open>effective_from\<close> descending; rows with the same
  \<^verbatim>\<open>effective_from\<close> keep their table order.
\<close>

definition get_recurring_versions :: "string \<Rightarrow> db \<Rightarrow> error + version_row list" where
  "get_recurring_versions recurring_id s =
     (case select_recurring s recurring_id of
        None \<Rightarrow> Inl NotFoundError
      | Some _ \<Rightarrow>
          Inr (rev (sort_key effective_from
                 (rev (filter (\<lambda>v. ver_recurring_transaction_id v = recurring_id)
                         (recurring_transaction_versions s))))))"

definition delete_recurring_version :: "string \<Rightarrow> string \<Rightarrow> db \<Rightarrow> error + db" where
  "delete_recurring_version today version_id s =
     (case find (\<lambda>v. ver_id v = version_id) (recurring_transaction_versions s) of
        None \<Rightarrow> Inl NotFoundError
      | Some r \<Rightarrow>
          if effective_from r \<le> today then Inl InvalidStateError
          else Inr (s\<lparr>recurring_transaction_versions :=
                        filter (\<lambda>v. ver_id v \<noteq> version_id) (recurring_transaction_versions s)\<rparr>))"

section \<open>Notions of the specification\<close>

text \<open>
  The versions of a template that are open (\<^verbatim>\<open>effective_until\<close> null): all of them,
  those in force today (\<^verbatim>\<open>effective_from <= today\<close>) and the pending ones
  (\<^verbatim>\<open>effective_from > today\<close>).
\<close>

definition open_future :: "db \<Rightarrow> string \<Rightarrow> string \<Rightarrow> version_row list" where
  "open_future s recurring_id today =
     filter (\<lambda>v. ver_recurring_transaction_id v = recurring_id
                  \<and> effective_from v > today \<and> effective_until v = None)
       (recurring_transaction_versions s)"

definition earlier_than :: "string \<Rightarrow> version_row list \<Rightarrow> version_row list" where
  "earlier_than d vs = filter (\<lambda>v. effective_from v < d) vs"

definition open_current :: "db \<Rightarrow> string \<Rightarrow> string \<Rightarrow> version_row list" where
  "open_current s recurring_id today =
     filter (\<lambda>v. ver_recurring_transaction_id v = recurring_id
                  \<and> effective_until v = None \<and> effective_from v \<le> today)
       (recurring_transaction_versions s)"

definition open_versions :: "db \<Rightarrow> string \<Rightarrow> version_row list" where
  "open_versions s recurring_id =
     filter (\<lambda>v. ver_recurring_transaction_id v = recurring_id \<and> effective_until v = None)
       (recurring_transaction_versions s)"

text \<open>The tuple by which a generated transaction is recognised.\<close>

definition dedup_key ::
  "transaction_row \<Rightarrow> string \<times> string option \<times> string \<times> rat \<times> string \<times> int" where
  "dedup_key t =
     (tx_budget_id t, tx_category_id t, tx_title t, tx_amount t, tx_date t, tx_is_recurring t)"

definition already_created :: "db \<Rightarrow> string \<Rightarrow> recurring_row \<Rightarrow> string \<Rightarrow> bool" where
  "already_created s budget_id rec date_str \<longleftrightarrow>
     existing_transaction s budget_id rec date_str \<noteq> None"



section \<open>Example data\<close>

text \<open>
  One budget \<^verbatim>\<open>b1\<close> with one monthly template \<^verbatim>\<open>r1\<close> created on 5 March 2024,
  and versions of that template; the theorems below are instantiated on them.
\<close>

definition ex_rec :: recurring_row where
  "ex_rec = \<lparr>rec_id = ''r1'', rec_budget_id = ''b1'', rec_category_id = Some ''c1'',
     rec_title = ''Rent'', rec_amount = 100, rec_transaction_type = ''expense'',
     rec_frequency = ''monthly'', rec_day = Some 1, rec_active = 1,
     rec_created_at = ''2024-03-05T09:30:00.000000+00:00''\<rparr>"

text \<open>
  What the parser returns on the creation timestamp of the example template; the examples
  parse no other text.
\<close>

definition ex_fromisoformat :: "string \<Rightarrow> error + datetime" where
  "ex_fromisoformat s =
     (if s = ''2024-03-05T09:30:00.000000+00:00''
      then Inr \<lparr>dt_year = 2024, dt_month = 3, dt_day = 5\<rparr> else Inl ValueError)"

definition ex_payload :: create_recurring_payload where
  "ex_payload = \<lparr>c_category_id = Some ''c1'', c_title = ''Rent'', c_amount = 100,
     c_transaction_type = ''expense'', c_frequency = ''monthly'', c_day = Some 1\<rparr>"

definition ex_empty :: db where
  "ex_empty = \<lparr>recurring_transactions = [], recurring_transaction_versions = [],
     transactions = [], categories = []\<rparr>"

definition ex_version :: "string \<Rightarrow> string \<Rightarrow> string option \<Rightarrow> version_row" where
  "ex_version vid from until =
     \<lparr>ver_id = vid, ver_recurring_transaction_id = ''r1'', ver_title = ''Rent'',
      ver_amount = 120, ver_category_id = Some ''c1'', ver_frequency = ''monthly'',
      ver_day = Some 1, effective_from = from, effective_until = until,
      ver_created_at = ''2024-03-01T08:00:00.000000+00:00'', change_reason = None\<rparr>"

definition ex_db :: "version_row list \<Rightarrow> db" where
  "ex_db vs = \<lparr>recurring_transactions = [ex_rec], recurring_transaction_versions = vs,
     transactions = [], categories = []\<rparr>"

definition ex_two :: db where
  "ex_two = ex_db [ex_version ''v1'' ''2024-03-01'' None, ex_version ''v2'' ''2030-01-01'' None]"

definition ex_uuid4 :: "nat \<Rightarrow> string" where
  "ex_uuid4 k = ''t'' @ str_nat k"

definition ex_now_iso :: "nat \<Rightarrow> string" where
  "ex_now_iso k = ''2024-03-05T10:00:00.000000+00:00''"

definition ex_one :: db where
  "ex_one = ex_db [ex_version ''v1'' ''2024-03-01'' None]"

definition ex_tie :: db where
  "ex_tie = ex_db [ex_version ''v1'' ''2030-01-01'' None]"

definition ex_future_payload :: "string \<Rightarrow> update_recurring_payload" where
  "ex_future_payload d = \<lparr>u_title = None, u_amount = Some 200, u_category_id = None,
     u_frequency = None, u_day = None, u_effective_date = Some d,
     u_change_reason = Some ''Future price increase''\<rparr>"

definition ex_now_payload :: "rat \<Rightarrow> string option \<Rightarrow> update_recurring_payload" where
  "ex_now_payload a d = \<lparr>u_title = None, u_amount = Some a, u_category_id = None,
     u_frequency = None, u_day = None, u_effective_date = d,
     u_change_reason = None\<rparr>"

definition ex_upd_version :: "string \<Rightarrow> rat \<Rightarrow> string \<Rightarrow> string option \<Rightarrow> version_row" where
  "ex_upd_version vid a from until =
     \<lparr>ver_id = vid, ver_recurring_transaction_id = ''r1'', ver_title = ''Rent'',
      ver_amount = a, ver_category_id = Some ''c1'', ver_frequency = ''monthly'',
      ver_day = Some 1, effective_from = from, effective_until = until,
      ver_created_at = ''2024-03-10T08:00:00+00:00'', change_reason = None\<rparr>"

definition ex_s1 :: db where
  "ex_s1 = \<lparr>recurring_transactions = [ex_rec\<lparr>rec_amount := 150\<rparr>],
     recurring_transaction_versions = [ex_upd_version ''v1'' 150 ''2024-03-10'' None],
     transactions = [], categories = []\<rparr>"

definition ex_s1_pending :: db where
  "ex_s1_pending = \<lparr>recurring_transactions = [ex_rec\<lparr>rec_amount := 150\<rparr>],
     recurring_transaction_versions =
       [ex_version ''v0'' ''2030-01-01'' None, ex_upd_version ''v1'' 150 ''2024-03-10'' None],
     transactions = [], categories = []\<rparr>"

definition ex_tx :: transaction_row where
  "ex_tx = \<lparr>tx_id = ''t0'', tx_budget_id = ''b1'', tx_category_id = Some ''c1'', tx_title = ''Rent'',
     tx_amount = 100, tx_transaction_type = ''expense'', tx_date = ''2024-03-01'',
     tx_comment = Some ''Auto-generated from recurring: Rent'', tx_is_recurring = 1,
     tx_paid_by_user_id = None, tx_created_at = ''2024-03-05T10:00:00.000000+00:00''\<rparr>"

definition ex_m1 :: db where
  "ex_m1 = \<lparr>recurring_transactions = [ex_rec], recurring_transaction_versions = [],
     transactions = [ex_tx], categories = []\<rparr>"

text \<open>The same budget with a template that has no category, and a second run's identifiers.\<close>

definition ex_rec_null :: recurring_row where
  "ex_rec_null = \<lparr>rec_id = ''r1'', rec_budget_id = ''b1'', rec_category_id = None,
     rec_title = ''Rent'', rec_amount = 100, rec_transaction_type = ''expense'',
     rec_frequency = ''monthly'', rec_day = Some 1, rec_active = 1,
     rec_created_at = ''2024-03-05T09:30:00.000000+00:00''\<rparr>"

definition ex_tx_null :: "string \<Rightarrow> transaction_row" where
  "ex_tx_null tid = \<lparr>tx_id = tid, tx_budget_id = ''b1'', tx_category_id = None,
     tx_title = ''Rent'', tx_amount = 100, tx_transaction_type = ''expense'',
     tx_date = ''2024-03-01'', tx_comment = Some ''Auto-generated from recurring: Rent'',
     tx_is_recurring = 1, tx_paid_by_user_id = None,
     tx_created_at = ''2024-03-05T10:00:00.000000+00:00''\<rparr>"

definition ex_db_null :: "transaction_row list \<Rightarrow> db" where
  "ex_db_null ts = \<lparr>recurring_transactions = [ex_rec_null], recurring_transaction_versions = [],
     transactions = ts, categories = []\<rparr>"

definition ex_uuid4_second :: "nat \<Rightarrow> string" where
  "ex_uuid4_second k = ''u'' @ str_nat k"

section \<open>Auxiliary facts about lists\<close>

lemma find_append_fresh: "(\<forall>x\<in>set xs. \<not> P x) \<Longrightarrow> P y \<Longrightarrow> find P (xs @ [y]) = Some y"
  by (induction xs) auto

lemma filter_neq_id: "(\<forall>x\<in>set xs. f x \<noteq> k) \<Longrightarrow> filter (\<lambda>x. f x \<noteq> k) xs = xs"
  by (induction xs) auto

lemma find_SomeD: "find P xs = Some x \<Longrightarrow> x \<in> set xs \<and> P x"
  by (induction xs) (auto split: if_splits)

lemma filter_neq_remove1:
  "distinct (map f xs) \<Longrightarrow> x \<in> set xs \<Longrightarrow> filter (\<lambda>v. f v \<noteq> f x) xs = remove1 x xs"
proof (induction xs)
  case Nil
  then show ?case by simp
next
  case (Cons a xs)
  show ?case
  proof (cases "a = x")
    case True
    with Cons.prems have "\<forall>v\<in>set xs. f v \<noteq> f x" by (auto simp: image_iff)
    with True show ?thesis by (simp add: filter_neq_id)
  next
    case False
    with Cons.prems have "x \<in> set xs" "f a \<noteq> f x" by (auto simp: image_iff)
    with Cons.IH Cons.prems False show ?thesis by simp
  qed
qed

lemma upto_filter_set: "set (filter P [1..d]) = {k. 1 \<le> k \<and> k \<le> d \<and> P k}"
  by auto

lemma sorted_filter_upto: "sorted_wrt (<) (filter P [i..j::int])"
  by (simp add: sorted_wrt_filter)

lemmas fmt_simps = fmt_date_def fmt_d_def fmt_02d_def str_nat.simps digit_char_def
lemmas cal_simps = monthrange_ndays_def mdays_def isleap_def weekday_def toordinal_def
  days_before_year_def days_before_month_def DAYS_BEFORE_MONTH_def

section \<open>Deleting a template\<close>

text \<open>
  C10. \<^verbatim>\<open>delete_recurring_transaction\<close> never fails: for every identifier it
  returns normally (HTTP 204, there is no existence check and no 404), and when no
  template has the identifier the database it leaves is the one it found.
\<close>

theorem delete_recurring_transaction_never_fails:
  "(\<exists>s'. delete_recurring_transaction recurring_id s = Inr s')
   \<and> ((\<forall>r\<in>set (recurring_transactions s). rec_id r \<noteq> recurring_id)
        \<longrightarrow> delete_recurring_transaction recurring_id s = Inr s)"
  by (simp add: delete_recurring_transaction_def filter_neq_id)

theorem delete_recurring_transaction_never_fails_witness:
  "''nonexistent-id'' \<notin> set (map rec_id (recurring_transactions (ex_db [])))
   \<and> delete_recurring_transaction ''nonexistent-id'' (ex_db []) = Inr (ex_db [])"
proof -
  have h: "\<forall>r\<in>set (recurring_transactions (ex_db [])). rec_id r \<noteq> ''nonexistent-id''"
    by (simp add: ex_db_def ex_rec_def)
  with delete_recurring_transaction_never_fails [of "''nonexistent-id''" "ex_db []"]
  show ?thesis by auto
qed

section \<open>Cancelling a scheduled version\<close>

text \<open>
  C8. \<^verbatim>\<open>delete_recurring_version\<close> raises \<^verbatim>\<open>NotFoundError\<close> (404) when no version
  has the identifier, and \<^verbatim>\<open>InvalidStateError\<close> (400) when the version found starts
  today or earlier; a route that raises has written nothing, its result carries no new
  database. When the version found starts strictly after today the route deletes the rows
  with that identifier and nothing else: with identifiers distinct (the primary key) that
  is exactly the version found, and no history returned by \<^verbatim>\<open>get_recurring_versions\<close>
  afterwards contains it.
\<close>

theorem cancel_pending_guard:
  "((\<forall>v\<in>set (recurring_transaction_versions s). ver_id v \<noteq> version_id)
      \<longrightarrow> delete_recurring_version today version_id s = Inl NotFoundError)
   \<and> (\<forall>r. find (\<lambda>v. ver_id v = version_id) (recurring_transaction_versions s) = Some r
          \<and> effective_from r \<le> today
        \<longrightarrow> delete_recurring_version today version_id s = Inl InvalidStateError)
   \<and> (\<forall>r. find (\<lambda>v. ver_id v = version_id) (recurring_transaction_versions s) = Some r
          \<and> today < effective_from r
        \<longrightarrow> (\<exists>s'. delete_recurring_version today version_id s = Inr s'
               \<and> recurring_transaction_versions s' =
                   filter (\<lambda>v. ver_id v \<noteq> version_id) (recurring_transaction_versions s)
               \<and> recurring_transactions s' = recurring_transactions s
               \<and> transactions s' = transactions s \<and> categories s' = categories s
               \<and> (distinct (map ver_id (recurring_transaction_versions s))
                    \<longrightarrow> recurring_transaction_versions s' =
                          remove1 r (recurring_transaction_versions s))
               \<and> (\<forall>recurring_id history.
                     get_recurring_versions recurring_id s' = Inr history
                     \<longrightarrow> (\<forall>v\<in>set history. ver_id v \<noteq> version_id))))"
proof (intro conjI allI impI)
  assume "\<forall>v\<in>set (recurring_transaction_versions s). ver_id v \<noteq> version_id"
  then have "find (\<lambda>v. ver_id v = version_id) (recurring_transaction_versions s) = None"
    by (simp add: find_None_iff)
  then show "delete_recurring_version today version_id s = Inl NotFoundError"
    by (simp add: delete_recurring_version_def)
next
  fix r
  assume "find (\<lambda>v. ver_id v = version_id) (recurring_transaction_versions s) = Some r
          \<and> effective_from r \<le> today"
  then show "delete_recurring_version today version_id s = Inl InvalidStateError"
    by (simp add: delete_recurring_version_def)
next
  fix r
  assume a: "find (\<lambda>v. ver_id v = version_id) (recurring_transaction_versions s) = Some r
          \<and> today < effective_from r"
  let ?s' = "s\<lparr>recurring_transaction_versions :=
               filter (\<lambda>v. ver_id v \<noteq> version_id) (recurring_transaction_versions s)\<rparr>"
  from a have del: "delete_recurring_version today version_id s = Inr ?s'"
    by (simp add: delete_recurring_version_def not_le)
  from a have r: "r \<in> set (recurring_transaction_versions s)" "ver_id r = version_id"
    using find_SomeD [of "\<lambda>v. ver_id v = version_id" "recurring_transaction_versions s" r]
    by simp_all
  have rem: "distinct (map ver_id (recurring_transaction_versions s))
     \<longrightarrow> recurring_transaction_versions ?s' = remove1 r (recurring_transaction_versions s)"
    using filter_neq_remove1 [of ver_id "recurring_transaction_versions s" r] r by simp
  have hist: "\<forall>recurring_id history. get_recurring_versions recurring_id ?s' = Inr history
                     \<longrightarrow> (\<forall>v\<in>set history. ver_id v \<noteq> version_id)"
    by (auto simp: get_recurring_versions_def split: option.splits)
  show "\<exists>s'. delete_recurring_version today version_id s = Inr s'
               \<and> recurring_transaction_versions s' =
                   filter (\<lambda>v. ver_id v \<noteq> version_id) (recurring_transaction_versions s)
               \<and> recurring_transactions s' = recurring_transactions s
               \<and> transactions s' = transactions s \<and> categories s' = categories s
               \<and> (distinct (map ver_id (recurring_transaction_versions s))
                    \<longrightarrow> recurring_transaction_versions s' =
                          remove1 r (recurring_transaction_versions s))
               \<and> (\<forall>recurring_id history.
                     get_recurring_versions recurring_id s' = Inr history
                     \<longrightarrow> (\<forall>v\<in>set history. ver_id v \<noteq> version_id))"
  proof (intro exI [of _ ?s'] conjI)
    show "delete_recurring_version today version_id s = Inr ?s'" by (rule del)
  qed (simp, simp, simp, simp, rule rem, rule hist)
qed

lemma ex_two_simps:
  "recurring_transaction_versions ex_two = [ex_version ''v1'' ''2024-03-01'' None, ex_version ''v2'' ''2030-01-01'' None]"
  "ver_id (ex_version a b c) = a" "effective_from (ex_version a b c) = b"
  by (simp_all add: ex_two_def ex_db_def ex_version_def)

theorem cancel_pending_guard_witness:
  "''v9'' \<notin> set (map ver_id (recurring_transaction_versions ex_two))
   \<and> delete_recurring_version ''2024-03-10'' ''v9'' ex_two = Inl NotFoundError
   \<and> find (\<lambda>v. ver_id v = ''v1'') (recurring_transaction_versions ex_two)
       = Some (ex_version ''v1'' ''2024-03-01'' None)
   \<and> effective_from (ex_version ''v1'' ''2024-03-01'' None) \<le> ''2024-03-10''
   \<and> delete_recurring_version ''2024-03-10'' ''v1'' ex_two = Inl InvalidStateError
   \<and> find (\<lambda>v. ver_id v = ''v2'') (recurring_transaction_versions ex_two)
       = Some (ex_version ''v2'' ''2030-01-01'' None)
   \<and> ''2024-03-10'' < effective_from (ex_version ''v2'' ''2030-01-01'' None)
   \<and> distinct (map ver_id (recurring_transaction_versions ex_two))
   \<and> delete_recurring_version ''2024-03-10'' ''v2'' ex_two
       = Inr (ex_db [ex_version ''v1'' ''2024-03-01'' None])
   \<and> get_recurring_versions ''r1'' (ex_db [ex_version ''v1'' ''2024-03-01'' None])
       = Inr [ex_version ''v1'' ''2024-03-01'' None]"
proof -
  have h1: "\<forall>v\<in>set (recurring_transaction_versions ex_two). ver_id v \<noteq> ''v9''"
    by (simp add: ex_two_simps)
  have h2: "find (\<lambda>v. ver_id v = ''v1'') (recurring_transaction_versions ex_two)
       = Some (ex_version ''v1'' ''2024-03-01'' None)
     \<and> effective_from (ex_version ''v1'' ''2024-03-01'' None) \<le> ''2024-03-10''"
    by (simp add: ex_two_simps)
  have h3: "find (\<lambda>v. ver_id v = ''v2'') (recurring_transaction_versions ex_two)
       = Some (ex_version ''v2'' ''2030-01-01'' None)
     \<and> ''2024-03-10'' < effective_from (ex_version ''v2'' ''2030-01-01'' None)"
    by (simp add: ex_two_simps)
  have h4: "distinct (map ver_id (recurring_transaction_versions ex_two))"
    by (simp add: ex_two_simps)
  have g: "get_recurring_versions ''r1'' (ex_db [ex_version ''v1'' ''2024-03-01'' None])
       = Inr [ex_version ''v1'' ''2024-03-01'' None]"
    by (simp add: get_recurring_versions_def select_recurring_def ex_db_def ex_rec_def ex_version_def)
  have e: "s' = ex_db [ex_version ''v1'' ''2024-03-01'' None]"
    if "recurring_transaction_versions s' = remove1 (ex_version ''v2'' ''2030-01-01'' None) (recurring_transaction_versions ex_two)"
     "recurring_transactions s' = recurring_transactions ex_two"
     "transactions s' = transactions ex_two" "categories s' = categories ex_two" for s' :: db
    using that by (cases s') (simp add: ex_two_def ex_db_def ex_version_def)
  note t1 = cancel_pending_guard [of ex_two "''v9''" "''2024-03-10''"]
  note t2 = cancel_pending_guard [of ex_two "''v1''" "''2024-03-10''"]
  note t3 = cancel_pending_guard [of ex_two "''v2''" "''2024-03-10''"]
  from t1 h1 have c1: "delete_recurring_version ''2024-03-10'' ''v9'' ex_two = Inl NotFoundError"
    by blast
  from t2 h2 have c2: "delete_recurring_version ''2024-03-10'' ''v1'' ex_two = Inl InvalidStateError"
    by blast
  from t3 h3 h4 obtain s' where "delete_recurring_version ''2024-03-10'' ''v2'' ex_two = Inr s'"
     "recurring_transaction_versions s' = remove1 (ex_version ''v2'' ''2030-01-01'' None) (recurring_transaction_versions ex_two)"
     "recurring_transactions s' = recurring_transactions ex_two"
     "transactions s' = transactions ex_two" "categories s' = categories ex_two"
    by blast
  with e have c3: "delete_recurring_version ''2024-03-10'' ''v2'' ex_two
       = Inr (ex_db [ex_version ''v1'' ''2024-03-01'' None])" by simp
  have h0: "''v9'' \<notin> set (map ver_id (recurring_transaction_versions ex_two))"
    by (simp add: ex_two_simps)
  from h0 h2 h3 h4 c1 c2 c3 g show ?thesis by blast
qed

section \<open>The recurrence rules\<close>

text \<open>
  C5. For a monthly template the due dates are the single date of the current month whose
  day is \<open>min (day or 1) last_day_of_month\<close> when that day is not after today's day,
  and no date otherwise. At most one date is produced; a day that is 0 or absent counts as
  1; day 31 in a month of 30 days gives the 30th of that same month.
\<close>

theorem monthly_due_dates:
  "rec_frequency rec = ''monthly'' \<longrightarrow>
     (let target_day = min (day_or (rec_day rec) 1) (monthrange_ndays y m)
      in dates_to_create fromisoformat y m d rec =
           Inr (if target_day \<le> d then [fmt_date y m target_day] else []))
     \<and> (\<exists>dates. dates_to_create fromisoformat y m d rec = Inr dates \<and> length dates \<le> 1)
     \<and> (rec_day rec = None \<or> rec_day rec = Some 0 \<longrightarrow> day_or (rec_day rec) 1 = 1)
     \<and> (rec_day rec = Some 31 \<and> monthrange_ndays y m = 30 \<longrightarrow>
          dates_to_create fromisoformat y m d rec = Inr (if 30 \<le> d then [fmt_date y m 30] else []))"
  by (auto simp: dates_to_create_def Let_def day_or_def)

theorem monthly_due_dates_witness:
  "rec_frequency (ex_rec\<lparr>rec_day := Some 31\<rparr>) = ''monthly''
   \<and> rec_day (ex_rec\<lparr>rec_day := Some 31\<rparr>) = Some 31 \<and> monthrange_ndays 2024 4 = 30
   \<and> dates_to_create ex_fromisoformat 2024 4 30 (ex_rec\<lparr>rec_day := Some 31\<rparr>) = Inr [''2024-04-30'']
   \<and> dates_to_create ex_fromisoformat 2024 4 29 (ex_rec\<lparr>rec_day := Some 31\<rparr>) = Inr []"
proof -
  have h: "rec_frequency (ex_rec\<lparr>rec_day := Some 31\<rparr>) = ''monthly''"
    by (simp add: ex_rec_def)
  have k: "rec_day (ex_rec\<lparr>rec_day := Some 31\<rparr>) = Some 31 \<and> monthrange_ndays 2024 4 = 30"
    by (simp add: cal_simps)
  have f: "fmt_date 2024 4 30 = ''2024-04-30''"
    by (simp add: fmt_simps)
  from h k f
    monthly_due_dates [where rec = "ex_rec\<lparr>rec_day := Some 31\<rparr>" and y = 2024 and m = 4
      and d = 30 and fromisoformat = ex_fromisoformat]
    monthly_due_dates [where rec = "ex_rec\<lparr>rec_day := Some 31\<rparr>" and y = 2024 and m = 4
      and d = 29 and fromisoformat = ex_fromisoformat]
  show ?thesis by (simp add: day_or_def)
qed

text \<open>
  C6. For a weekly template the due dates are the dates of the days \<open>k\<close> of the current
  month with \<open>1 \<le> k \<le> current_day\<close> whose weekday (Monday is 0) is \<open>day or 0\<close>, in
  ascending order; a day that is 0 or absent counts as Monday. With day 4 and today
  22 March 2024 they are the Fridays 1, 8, 15 and 22 March.
\<close>

theorem weekly_due_dates:
  "rec_frequency rec = ''weekly'' \<longrightarrow>
     (\<exists>days. dates_to_create fromisoformat y m d rec = Inr (map (fmt_date y m) days)
        \<and> set days = {k. 1 \<le> k \<and> k \<le> d \<and> weekday y m k = day_or (rec_day rec) 0}
        \<and> sorted_wrt (<) days)
     \<and> (rec_day rec = None \<or> rec_day rec = Some 0 \<longrightarrow> day_or (rec_day rec) 0 = 0)"
proof (intro impI conjI)
  assume w: "rec_frequency rec = ''weekly''"
  let ?days = "filter (\<lambda>day. weekday y m day = day_or (rec_day rec) 0) [1..d]"
  from w have "dates_to_create fromisoformat y m d rec = Inr (map (fmt_date y m) ?days)"
    by (simp add: dates_to_create_def Let_def)
  moreover have "set ?days = {k. 1 \<le> k \<and> k \<le> d \<and> weekday y m k = day_or (rec_day rec) 0}"
    by (rule upto_filter_set)
  moreover have "sorted_wrt (<) ?days"
    by (rule sorted_filter_upto)
  ultimately show "\<exists>days. dates_to_create fromisoformat y m d rec = Inr (map (fmt_date y m) days)
        \<and> set days = {k. 1 \<le> k \<and> k \<le> d \<and> weekday y m k = day_or (rec_day rec) 0}
        \<and> sorted_wrt (<) days"
    by blast
next
  assume "rec_day rec = None \<or> rec_day rec = Some 0"
  then show "day_or (rec_day rec) 0 = 0"
    by (auto simp: day_or_def)
qed

lemma upto_22: "[1..22::int] = [1,2,3,4,5,6,7,8,9,10,11,12,13,14,15,16,17,18,19,20,21,22]"
  by (simp add: upto.simps)

theorem weekly_due_dates_witness:
  "rec_frequency (ex_rec\<lparr>rec_frequency := ''weekly'', rec_day := Some 4\<rparr>) = ''weekly''
   \<and> {k. 1 \<le> k \<and> k \<le> 22 \<and> weekday 2024 3 k = 4} = {1, 8, 15, 22}
   \<and> dates_to_create ex_fromisoformat 2024 3 22 (ex_rec\<lparr>rec_frequency := ''weekly'', rec_day := Some 4\<rparr>)
       = Inr [''2024-03-01'', ''2024-03-08'', ''2024-03-15'', ''2024-03-22'']"
proof -
  let ?r = "ex_rec\<lparr>rec_frequency := ''weekly'', rec_day := Some 4\<rparr>"
  have h: "rec_frequency ?r = ''weekly''"
    by simp
  have dy: "day_or (rec_day ?r) 0 = 4"
    by (simp add: day_or_def)
  from h weekly_due_dates [where rec = ?r and y = 2024 and m = 3 and d = 22
      and fromisoformat = ex_fromisoformat] obtain days where
    d: "dates_to_create ex_fromisoformat 2024 3 22 ?r = Inr (map (fmt_date 2024 3) days)"
       "set days = {k. 1 \<le> k \<and> k \<le> 22 \<and> weekday 2024 3 k = day_or (rec_day ?r) 0}"
    by blast
  have c: "dates_to_create ex_fromisoformat 2024 3 22 ?r
       = Inr [''2024-03-01'', ''2024-03-08'', ''2024-03-15'', ''2024-03-22'']"
    by (simp add: dates_to_create_def Let_def ex_rec_def day_or_def upto_22 cal_simps fmt_simps)
  have fm: "map (fmt_date 2024 3) [1, 8, 15, 22] = [''2024-03-01'', ''2024-03-08'', ''2024-03-15'', ''2024-03-22'']"
    by (simp add: fmt_simps)
  have "set (filter (\<lambda>k. weekday 2024 3 k = 4) [1..22]) = {1, 8, 15, 22}"
    by (simp add: upto_22 cal_simps)
  then have s: "{k. 1 \<le> k \<and> k \<le> 22 \<and> weekday 2024 3 k = 4} = {1, 8, 15, 22}"
    by (simp add: upto_filter_set)
  from h s c d dy show ?thesis by simp
qed

text \<open>
  C7. For a yearly template whose creation timestamp the parser accepts (a template's
  timestamp is written by \<^verbatim>\<open>isoformat()\<close>), the due dates are the single
  date with day \<open>min (day or 1) last_day_of_month\<close> when the month of the creation
  timestamp is the current month and that day is not after today's day, and no date
  otherwise; in every other month there is none.
\<close>

theorem yearly_due_dates:
  "rec_frequency rec = ''yearly''
   \<and> fromisoformat (replace_Z (rec_created_at rec)) = Inr rec_created \<longrightarrow>
     (let target_day = min (day_or (rec_day rec) 1) (monthrange_ndays y m)
      in dates_to_create fromisoformat y m d rec =
           Inr (if dt_month rec_created = m \<and> target_day \<le> d
                then [fmt_date y m target_day] else []))
     \<and> (dt_month rec_created \<noteq> m \<longrightarrow> dates_to_create fromisoformat y m d rec = Inr [])"
  by (auto simp: dates_to_create_def Let_def)

theorem yearly_due_dates_witness:
  "rec_frequency (ex_rec\<lparr>rec_frequency := ''yearly'', rec_day := Some 31\<rparr>) = ''yearly''
   \<and> map_sum id dt_month
        (ex_fromisoformat (replace_Z
           (rec_created_at (ex_rec\<lparr>rec_frequency := ''yearly'', rec_day := Some 31\<rparr>)))) = Inr 3
   \<and> dates_to_create ex_fromisoformat 2025 3 31 (ex_rec\<lparr>rec_frequency := ''yearly'', rec_day := Some 31\<rparr>)
       = Inr [''2025-03-31'']
   \<and> dates_to_create ex_fromisoformat 2025 3 30 (ex_rec\<lparr>rec_frequency := ''yearly'', rec_day := Some 31\<rparr>)
       = Inr []
   \<and> dates_to_create ex_fromisoformat 2025 4 30 (ex_rec\<lparr>rec_frequency := ''yearly'', rec_day := Some 31\<rparr>)
       = Inr []"
proof -
  let ?r = "ex_rec\<lparr>rec_frequency := ''yearly'', rec_day := Some 31\<rparr>"
  let ?dt = "\<lparr>dt_year = 2024, dt_month = 3, dt_day = 5\<rparr>"
  have h: "rec_frequency ?r = ''yearly''
      \<and> ex_fromisoformat (replace_Z (rec_created_at ?r)) = Inr ?dt"
    by (simp add: ex_rec_def replace_Z_def ex_fromisoformat_def)
  have k: "day_or (rec_day ?r) 1 = 31" "monthrange_ndays 2025 3 = 31"
    by (simp_all add: day_or_def cal_simps)
  have f: "fmt_date 2025 3 31 = ''2025-03-31''"
    by (simp add: fmt_simps)
  from h k f
    yearly_due_dates [where rec = ?r and fromisoformat = ex_fromisoformat and rec_created = ?dt
      and y = 2025 and m = 3 and d = 31]
    yearly_due_dates [where rec = ?r and fromisoformat = ex_fromisoformat and rec_created = ?dt
      and y = 2025 and m = 3 and d = 30]
    yearly_due_dates [where rec = ?r and fromisoformat = ex_fromisoformat and rec_created = ?dt
      and y = 2025 and m = 4 and d = 30]
  show ?thesis by simp
qed

section \<open>Creating a template\<close>

text \<open>
  C9. A template created by \<^verbatim>\<open>create_recurring_transaction\<close> under a fresh identifier
  is stored with \<^verbatim>\<open>active = 1\<close>, the response carries no pending version, no version
  row is written, and the new row is among the active templates that materialization
  reads for its budget: it is materialized in the month of its creation with no further
  call (the example creates a monthly template on 5 March and materializes 1 March).
\<close>

theorem create_recurring_transaction_active:
  "(\<forall>r\<in>set (recurring_transactions s). rec_id r \<noteq> recurring_id) \<longrightarrow>
   (\<exists>s' r. create_recurring_transaction recurring_id now budget_id payload s = Inr (s', r)
      \<and> rec_id (row r) = recurring_id \<and> rec_budget_id (row r) = budget_id
      \<and> rec_active (row r) = 1 \<and> pending_version r = None
      \<and> recurring_transactions s' = recurring_transactions s @ [row r]
      \<and> recurring_transaction_versions s' = recurring_transaction_versions s
      \<and> transactions s' = transactions s \<and> categories s' = categories s
      \<and> row r \<in> set (active_recurring s' budget_id)
      \<and> ((\<forall>v\<in>set (recurring_transaction_versions s).
              ver_recurring_transaction_id v \<noteq> recurring_id)
           \<longrightarrow> pending_version_query s' recurring_id today = None))"
proof
  assume fresh: "\<forall>r\<in>set (recurring_transactions s). rec_id r \<noteq> recurring_id"
  let ?new = "\<lparr>rec_id = recurring_id, rec_budget_id = budget_id,
                   rec_category_id = c_category_id payload, rec_title = c_title payload,
                   rec_amount = c_amount payload,
                   rec_transaction_type = c_transaction_type payload,
                   rec_frequency = c_frequency payload, rec_day = c_day payload,
                   rec_active = 1, rec_created_at = now\<rparr>"
  let ?s' = "s\<lparr>recurring_transactions := recurring_transactions s @ [?new]\<rparr>"
  from fresh have sel: "select_recurring ?s' recurring_id = Some ?new"
    by (simp add: select_recurring_def find_append_fresh)
  then have res: "create_recurring_transaction recurring_id now budget_id payload s
      = Inr (?s', with_category ?s' ?new None)"
    by (simp add: create_recurring_transaction_def Let_def)
  have wc: "row (with_category ?s' ?new None) = ?new"
      "pending_version (with_category ?s' ?new None) = None"
    by (simp_all add: with_category_def Let_def)
  have act: "?new \<in> set (active_recurring ?s' budget_id)"
    by (simp add: active_recurring_def)
  have pend: "(\<forall>v\<in>set (recurring_transaction_versions s).
              ver_recurring_transaction_id v \<noteq> recurring_id)
           \<longrightarrow> pending_version_query ?s' recurring_id today = None"
  proof
    assume "\<forall>v\<in>set (recurring_transaction_versions s).
              ver_recurring_transaction_id v \<noteq> recurring_id"
    then have "filter (\<lambda>v. ver_recurring_transaction_id v = recurring_id
                          \<and> effective_from v > today \<and> effective_until v = None)
                (recurring_transaction_versions s) = []"
      by (simp add: filter_empty_conv)
    then show "pending_version_query ?s' recurring_id today = None"
      by (simp add: pending_version_query_def)
  qed
  show "\<exists>s' r. create_recurring_transaction recurring_id now budget_id payload s = Inr (s', r)
      \<and> rec_id (row r) = recurring_id \<and> rec_budget_id (row r) = budget_id
      \<and> rec_active (row r) = 1 \<and> pending_version r = None
      \<and> recurring_transactions s' = recurring_transactions s @ [row r]
      \<and> recurring_transaction_versions s' = recurring_transaction_versions s
      \<and> transactions s' = transactions s \<and> categories s' = categories s
      \<and> row r \<in> set (active_recurring s' budget_id)
      \<and> ((\<forall>v\<in>set (recurring_transaction_versions s).
              ver_recurring_transaction_id v \<noteq> recurring_id)
           \<longrightarrow> pending_version_query s' recurring_id today = None)"
  proof (intro exI [of _ ?s'] exI [of _ "with_category ?s' ?new None"] conjI)
    show "create_recurring_transaction recurring_id now budget_id payload s
      = Inr (?s', with_category ?s' ?new None)" by (rule res)
    show "row (with_category ?s' ?new None) \<in> set (active_recurring ?s' budget_id)"
      using act by (simp only: wc)
    show "(\<forall>v\<in>set (recurring_transaction_versions s).
              ver_recurring_transaction_id v \<noteq> recurring_id)
           \<longrightarrow> pending_version_query ?s' recurring_id today = None" by (rule pend)
  qed (simp_all add: wc)
qed

theorem create_recurring_transaction_active_witness:
  "''r1'' \<notin> set (map rec_id (recurring_transactions ex_empty))
   \<and> ''r1'' \<notin> set (map ver_recurring_transaction_id (recurring_transaction_versions ex_empty))
   \<and> map_sum id fst (create_recurring_transaction ''r1'' ''2024-03-05T09:30:00.000000+00:00''
         ''b1'' ex_payload ex_empty) = Inr (ex_db [])
   \<and> pending_version_query (ex_db []) ''r1'' ''2024-03-05'' = None
   \<and> map_sum id (map tx_date \<circ> snd)
        (process_recurring_transactions ex_fromisoformat 2024 3 5 ex_uuid4 ex_now_iso ''b1'' (ex_db []))
       = Inr [''2024-03-01'']"
proof -
  have h1: "\<forall>r\<in>set (recurring_transactions ex_empty). rec_id r \<noteq> ''r1''"
    by (simp add: ex_empty_def)
  have h2: "\<forall>v\<in>set (recurring_transaction_versions ex_empty).
              ver_recurring_transaction_id v \<noteq> ''r1''"
    by (simp add: ex_empty_def)
  from h1 h2 create_recurring_transaction_active [of ex_empty "''r1''"
      "''2024-03-05T09:30:00.000000+00:00''" "''b1''" ex_payload "''2024-03-05''"]
  obtain s' r where c:
    "create_recurring_transaction ''r1'' ''2024-03-05T09:30:00.000000+00:00''
         ''b1'' ex_payload ex_empty = Inr (s', r)"
    "recurring_transactions s' = recurring_transactions ex_empty @ [row r]"
    "recurring_transaction_versions s' = recurring_transaction_versions ex_empty"
    "transactions s' = transactions ex_empty" "categories s' = categories ex_empty"
    "pending_version_query s' ''r1'' ''2024-03-05'' = None"
    by blast
  have "create_recurring_transaction ''r1'' ''2024-03-05T09:30:00.000000+00:00''
         ''b1'' ex_payload ex_empty = Inr (ex_db [], with_category (ex_db []) ex_rec None)"
    by (simp add: create_recurring_transaction_def select_recurring_def Let_def ex_empty_def
        ex_payload_def ex_db_def ex_rec_def)
  with c have e: "s' = ex_db []" by simp
  have m: "map_sum id (map tx_date \<circ> snd)
        (process_recurring_transactions ex_fromisoformat 2024 3 5 ex_uuid4 ex_now_iso ''b1'' (ex_db []))
       = Inr [''2024-03-01'']"
    by (simp add: process_recurring_transactions_def active_recurring_def ex_db_def ex_rec_def
        dates_to_create_def Let_def day_or_def cal_simps fmt_simps existing_transaction_def
        generated_transaction_def)
  have h0: "''r1'' \<notin> set (map rec_id (recurring_transactions ex_empty))"
    "''r1'' \<notin> set (map ver_recurring_transaction_id (recurring_transaction_versions ex_empty))"
    by (simp_all add: ex_empty_def)
  from h0 c e m show ?thesis by simp
qed

section \<open>Facts about the version store\<close>

lemma foldr_insort_key_min:
  "(\<forall>x\<in>set xs. f y < f x) \<Longrightarrow>
   foldr (insort_key f) xs (y # zs) = y # foldr (insort_key f) xs zs"
  for f :: "'a \<Rightarrow> 'b::linorder"
  by (induction xs) (auto simp: not_le)

lemma sort_key_snoc_min:
  "(\<forall>x\<in>set xs. f y < f x) \<Longrightarrow> sort_key f (xs @ [y]) = y # sort_key f xs"
  for f :: "'a \<Rightarrow> 'b::linorder"
  by (simp add: sort_key_def foldr_insort_key_min)

lemma pending_version_query_open_future:
  "pending_version_query s recurring_id today =
     (case sort_key effective_from (open_future s recurring_id today) of
        [] \<Rightarrow> None | v # _ \<Rightarrow> Some v)"
  by (simp add: pending_version_query_def open_future_def)

lemma select_recurring_versions_update [simp]:
  "select_recurring (s\<lparr>recurring_transaction_versions := vs\<rparr>) recurring_id
     = select_recurring s recurring_id"
  by (simp add: select_recurring_def)

lemma effective_date_of_future:
  "u_effective_date payload = Some e \<Longrightarrow> today < e \<Longrightarrow> effective_date_of payload today = e"
  by (auto simp: effective_date_of_def)

lemmas ex_simps = ex_one_def ex_tie_def ex_db_def ex_rec_def ex_version_def ex_future_payload_def
  ex_now_payload_def

lemmas update_simps = update_recurring_transaction_def select_recurring_def Let_def
  effective_date_of_def new_version_def or_else_def close_current_versions_def close_version_def
  update_base_def
  with_category_def pending_version_query_def sort_key_def

lemma update_versions:
  assumes "update_recurring_transaction today created_at version_id recurring_id payload s
             = Inr (s', r)"
  shows "\<exists>row0. select_recurring s recurring_id = Some row0
           \<and> recurring_transaction_versions s' =
               (if effective_date_of payload today \<le> today
                then close_current_versions recurring_id today (recurring_transaction_versions s)
                else recurring_transaction_versions s)
               @ [new_version today created_at version_id recurring_id payload row0]"
  using assms
  by (auto simp: update_recurring_transaction_def Let_def split: option.splits if_splits)

lemma close_map: "close_current_versions recurring_id today vs = map (close_version recurring_id today) vs"
  by (simp add: close_current_versions_def)

lemma close_version_not_current:
  "\<not> (ver_recurring_transaction_id (close_version recurring_id today v) = recurring_id
      \<and> effective_until (close_version recurring_id today v) = None
      \<and> effective_from (close_version recurring_id today v) \<le> today)"
  by (cases "ver_recurring_transaction_id v = recurring_id \<and> effective_until v = None
         \<and> effective_from v \<le> today") (simp_all add: close_version_def)

lemma close_version_twice_not_open:
  assumes "\<not> (ver_recurring_transaction_id v = recurring_id
              \<and> effective_from v > today \<and> effective_until v = None)"
  shows "\<not> (ver_recurring_transaction_id (close_version recurring_id today (close_version recurring_id today0 v)) = recurring_id
      \<and> effective_until (close_version recurring_id today (close_version recurring_id today0 v)) = None)"
proof (cases "ver_recurring_transaction_id v = recurring_id \<and> effective_until v = None")
  case False
  then have "close_version recurring_id today (close_version recurring_id today0 v) = v"
    by (simp add: close_version_def)
  with False show ?thesis by simp
next
  case True
  with assms have le: "effective_from v \<le> today" by (simp add: not_less)
  show ?thesis
  proof (cases "effective_from v \<le> today0")
    case True
    with \<open>ver_recurring_transaction_id v = recurring_id \<and> effective_until v = None\<close>
    show ?thesis by (simp add: close_version_def)
  next
    case False
    with \<open>ver_recurring_transaction_id v = recurring_id \<and> effective_until v = None\<close> le
    show ?thesis by (simp add: close_version_def)
  qed
qed

lemma open_current_closed:
  "filter (\<lambda>v. ver_recurring_transaction_id v = recurring_id
              \<and> effective_until v = None \<and> effective_from v \<le> today)
     (close_current_versions recurring_id today vs) = []"
  unfolding close_map
  by (induction vs) (simp_all add: close_version_not_current)

lemma open_versions_closed:
  assumes "filter (\<lambda>v. ver_recurring_transaction_id v = recurring_id
              \<and> effective_from v > today \<and> effective_until v = None) vs = []"
  shows "filter (\<lambda>v. ver_recurring_transaction_id v = recurring_id \<and> effective_until v = None)
     (close_current_versions recurring_id today (close_current_versions recurring_id today0 vs)) = []"
  using assms unfolding close_map
proof (induction vs)
  case Nil
  show ?case by simp
next
  case (Cons v vs)
  from Cons.prems have allp: "\<forall>x\<in>set (v # vs). \<not> (ver_recurring_transaction_id x = recurring_id
              \<and> effective_from x > today \<and> effective_until x = None)"
    by (simp only: filter_empty_conv)
  then have hd: "\<not> (ver_recurring_transaction_id v = recurring_id
              \<and> effective_from v > today \<and> effective_until v = None)"
    by simp
  from allp have "\<forall>x\<in>set vs. \<not> (ver_recurring_transaction_id x = recurring_id
              \<and> effective_from x > today \<and> effective_until x = None)"
    by simp
  then have "filter (\<lambda>v. ver_recurring_transaction_id v = recurring_id
              \<and> effective_from v > today \<and> effective_until v = None) vs = []"
    by (simp only: filter_empty_conv)
  then have ih: "filter (\<lambda>v. ver_recurring_transaction_id v = recurring_id \<and> effective_until v = None)
     (map (close_version recurring_id today) (map (close_version recurring_id today0) vs)) = []"
    by (rule Cons.IH)
  from close_version_twice_not_open [OF hd, of today0] ih show ?case
    by simp
qed

lemmas ex_upd_simps = ex_s1_def ex_s1_pending_def ex_upd_version_def

lemma ex_first_update:
  "\<exists>r. update_recurring_transaction ''2024-03-10'' ''2024-03-10T08:00:00+00:00'' ''v1'' ''r1''
         (ex_now_payload 150 None) (ex_db []) = Inr (ex_s1, r)"
  by (simp add: update_simps ex_simps ex_upd_simps)

section \<open>Scheduling a future change\<close>

text \<open>
  C4. An update of an existing template whose \<^verbatim>\<open>effective_date\<close> is strictly after today
  leaves the template rows (title, amount, category, frequency, day, active) and every
  existing version as they are and appends exactly one version, with
  \<^verbatim>\<open>effective_from = effective_date\<close>, \<^verbatim>\<open>effective_until\<close> null, the merged field
  values and the reason. The pending version of the response is that version when every
  other pending version of the template starts strictly later than \<^verbatim>\<open>effective_date\<close>.
\<close>

theorem future_update_schedules_only:
  "select_recurring s recurring_id = Some row0
   \<and> u_effective_date payload = Some effective_date \<and> today < effective_date \<longrightarrow>
   (\<exists>s' r nv.
      update_recurring_transaction today created_at version_id recurring_id payload s
        = Inr (s', r)
      \<and> recurring_transactions s' = recurring_transactions s \<and> row r = row0
      \<and> transactions s' = transactions s \<and> categories s' = categories s
      \<and> recurring_transaction_versions s' = recurring_transaction_versions s @ [nv]
      \<and> ver_id nv = version_id \<and> ver_recurring_transaction_id nv = recurring_id
      \<and> effective_from nv = effective_date \<and> effective_until nv = None
      \<and> change_reason nv = u_change_reason payload
      \<and> ver_title nv = or_else (u_title payload) (rec_title row0)
      \<and> ver_amount nv = or_else (u_amount payload) (rec_amount row0)
      \<and> ver_category_id nv = (case u_category_id payload of None \<Rightarrow> rec_category_id row0
                                | Some c \<Rightarrow> Some c)
      \<and> ver_frequency nv = or_else (u_frequency payload) (rec_frequency row0)
      \<and> ver_day nv = (case u_day payload of None \<Rightarrow> rec_day row0 | Some d \<Rightarrow> Some d)
      \<and> ((\<forall>v\<in>set (open_future s recurring_id today). effective_date < effective_from v)
           \<longrightarrow> pending_version r = Some nv))"
proof
  assume a: "select_recurring s recurring_id = Some row0
   \<and> u_effective_date payload = Some effective_date \<and> today < effective_date"
  let ?nv = "new_version today created_at version_id recurring_id payload row0"
  let ?s' = "s\<lparr>recurring_transaction_versions := recurring_transaction_versions s @ [?nv]\<rparr>"
  let ?r = "with_category ?s' row0 (pending_version_query ?s' recurring_id today)"
  from a have ed: "effective_date_of payload today = effective_date"
    by (simp add: effective_date_of_future)
  with a have nle: "\<not> effective_date_of payload today \<le> today"
    by (simp add: not_le)
  from a nle have res:
    "update_recurring_transaction today created_at version_id recurring_id payload s
        = Inr (?s', ?r)"
    by (simp add: update_recurring_transaction_def Let_def)
  have fut: "open_future ?s' recurring_id today = open_future s recurring_id today @ [?nv]"
    using a ed by (simp add: open_future_def new_version_def)
  have pend: "(\<forall>v\<in>set (open_future s recurring_id today). effective_date < effective_from v)
           \<longrightarrow> pending_version ?r = Some ?nv"
  proof
    assume "\<forall>v\<in>set (open_future s recurring_id today). effective_date < effective_from v"
    then have "\<forall>v\<in>set (open_future s recurring_id today). effective_from ?nv < effective_from v"
      using ed by (simp add: new_version_def)
    then have "sort_key effective_from (open_future ?s' recurring_id today)
        = ?nv # sort_key effective_from (open_future s recurring_id today)"
      unfolding fut by (rule sort_key_snoc_min)
    then have "pending_version_query ?s' recurring_id today = Some ?nv"
      by (simp add: pending_version_query_open_future)
    then show "pending_version ?r = Some ?nv"
      by (simp add: with_category_def Let_def)
  qed
  have rowr: "row ?r = row0"
    by (simp add: with_category_def Let_def)
  show "\<exists>s' r nv.
      update_recurring_transaction today created_at version_id recurring_id payload s
        = Inr (s', r)
      \<and> recurring_transactions s' = recurring_transactions s \<and> row r = row0
      \<and> transactions s' = transactions s \<and> categories s' = categories s
      \<and> recurring_transaction_versions s' = recurring_transaction_versions s @ [nv]
      \<and> ver_id nv = version_id \<and> ver_recurring_transaction_id nv = recurring_id
      \<and> effective_from nv = effective_date \<and> effective_until nv = None
      \<and> change_reason nv = u_change_reason payload
      \<and> ver_title nv = or_else (u_title payload) (rec_title row0)
      \<and> ver_amount nv = or_else (u_amount payload) (rec_amount row0)
      \<and> ver_category_id nv = (case u_category_id payload of None \<Rightarrow> rec_category_id row0
                                | Some c \<Rightarrow> Some c)
      \<and> ver_frequency nv = or_else (u_frequency payload) (rec_frequency row0)
      \<and> ver_day nv = (case u_day payload of None \<Rightarrow> rec_day row0 | Some d \<Rightarrow> Some d)
      \<and> ((\<forall>v\<in>set (open_future s recurring_id today). effective_date < effective_from v)
           \<longrightarrow> pending_version r = Some nv)"
  proof (intro exI [of _ ?s'] exI [of _ ?r] exI [of _ ?nv] conjI)
    show "update_recurring_transaction today created_at version_id recurring_id payload s
        = Inr (?s', ?r)" by (rule res)
    show "row ?r = row0" by (rule rowr)
    show "(\<forall>v\<in>set (open_future s recurring_id today). effective_date < effective_from v)
           \<longrightarrow> pending_version ?r = Some ?nv" by (rule pend)
    show "effective_from ?nv = effective_date" using ed by (simp add: new_version_def)
  qed (simp_all add: new_version_def)
qed

theorem future_update_schedules_only_witness:
  "select_recurring ex_one ''r1'' = Some ex_rec
   \<and> u_effective_date (ex_future_payload ''2030-01-01'') = Some ''2030-01-01''
   \<and> ''2024-03-10'' < ''2030-01-01''
   \<and> open_future ex_one ''r1'' ''2024-03-10'' = []
   \<and> map_sum id (\<lambda>(s', r). (recurring_transactions s', row r,
                     map_option effective_from (pending_version r),
                     map_option ver_amount (pending_version r),
                     map ver_id (recurring_transaction_versions s')))
        (update_recurring_transaction ''2024-03-10'' ''2024-03-10T08:00:00+00:00'' ''v2'' ''r1''
           (ex_future_payload ''2030-01-01'') ex_one)
       = Inr ([ex_rec], ex_rec, Some ''2030-01-01'', Some 200, [''v1'', ''v2''])"
proof -
  have h: "select_recurring ex_one ''r1'' = Some ex_rec
   \<and> u_effective_date (ex_future_payload ''2030-01-01'') = Some ''2030-01-01''
   \<and> ''2024-03-10'' < ''2030-01-01''"
    by (simp add: select_recurring_def ex_simps)
  have f: "open_future ex_one ''r1'' ''2024-03-10'' = []"
    by (simp add: open_future_def ex_simps)
  have p: "or_else (u_amount (ex_future_payload ''2030-01-01'')) (rec_amount ex_rec) = 200"
    by (simp add: or_else_def ex_simps)
  have v: "recurring_transactions ex_one = [ex_rec]"
      "map ver_id (recurring_transaction_versions ex_one) = [''v1'']"
    by (simp_all add: ex_simps)
  from h f future_update_schedules_only [of ex_one "''r1''" ex_rec
      "ex_future_payload ''2030-01-01''" "''2030-01-01''" "''2024-03-10''"
      "''2024-03-10T08:00:00+00:00''" "''v2''"]
  obtain s' r nv where
    "update_recurring_transaction ''2024-03-10'' ''2024-03-10T08:00:00+00:00'' ''v2'' ''r1''
           (ex_future_payload ''2030-01-01'') ex_one = Inr (s', r)"
    "recurring_transactions s' = recurring_transactions ex_one" "row r = ex_rec"
    "recurring_transaction_versions s' = recurring_transaction_versions ex_one @ [nv]"
    "ver_id nv = ''v2''" "effective_from nv = ''2030-01-01''"
    "ver_amount nv = or_else (u_amount (ex_future_payload ''2030-01-01'')) (rec_amount ex_rec)"
    "pending_version r = Some nv"
    by auto
  with h f p v show ?thesis by simp
qed

text \<open>
  With a pending version of the same \<^verbatim>\<open>effective_from\<close> already scheduled, no
  earlier-dated pending version exists, yet the response carries the older version.
\<close>

theorem future_update_tie_counterexample:
  "select_recurring ex_tie ''r1'' = Some ex_rec
   \<and> ''2024-03-10'' < ''2030-01-01''
   \<and> earlier_than ''2030-01-01'' (open_future ex_tie ''r1'' ''2024-03-10'') = []
   \<and> map_sum id (\<lambda>(s', r). (map ver_id (recurring_transaction_versions s'),
                     map_option ver_id (pending_version r),
                     map_option ver_amount (pending_version r)))
        (update_recurring_transaction ''2024-03-10'' ''2024-03-10T08:00:00+00:00'' ''v2'' ''r1''
           (ex_future_payload ''2030-01-01'') ex_tie)
       = Inr ([''v1'', ''v2''], Some ''v1'', Some 120)"
  by (simp add: update_simps open_future_def earlier_than_def ex_simps)

section \<open>Two immediate updates in a row\<close>

text \<open>
  C3. After two updates of a template with \<^verbatim>\<open>effective_date <= today\<close>, the second not
  on an earlier day than the first, the version written by the first call is closed with
  \<^verbatim>\<open>effective_until\<close> = the day of the second call, and the version written by the
  second call is the only open version of the template that is in force; it is the only
  open version at all when no pending version had been scheduled before. The closing day
  is the \<^verbatim>\<open>effective_from\<close> of the newer version when the second call's
  \<^verbatim>\<open>effective_date\<close> is today.
\<close>

theorem immediate_updates_chain:
  "update_recurring_transaction today1 created_at1 version_id1 recurring_id payload1 s0
     = Inr (s1, r1)
   \<and> update_recurring_transaction today2 created_at2 version_id2 recurring_id payload2 s1
     = Inr (s2, r2)
   \<and> effective_date_of payload1 today1 \<le> today1
   \<and> effective_date_of payload2 today2 \<le> today2 \<and> today1 \<le> today2 \<longrightarrow>
   (\<exists>older newer.
      recurring_transaction_versions s2 =
        close_current_versions recurring_id today2
          (close_current_versions recurring_id today1 (recurring_transaction_versions s0))
        @ [older, newer]
      \<and> ver_id older = version_id1 \<and> ver_recurring_transaction_id older = recurring_id
      \<and> effective_from older = effective_date_of payload1 today1
      \<and> effective_until older = Some today2
      \<and> ver_id newer = version_id2 \<and> ver_recurring_transaction_id newer = recurring_id
      \<and> effective_from newer = effective_date_of payload2 today2
      \<and> effective_until newer = None
      \<and> open_current s2 recurring_id today2 = [newer]
      \<and> (open_future s0 recurring_id today2 = [] \<longrightarrow> open_versions s2 recurring_id = [newer])
      \<and> (effective_date_of payload2 today2 = today2
           \<longrightarrow> effective_until older = Some (effective_from newer)))"
proof
  assume a: "update_recurring_transaction today1 created_at1 version_id1 recurring_id payload1 s0
     = Inr (s1, r1)
   \<and> update_recurring_transaction today2 created_at2 version_id2 recurring_id payload2 s1
     = Inr (s2, r2)
   \<and> effective_date_of payload1 today1 \<le> today1
   \<and> effective_date_of payload2 today2 \<le> today2 \<and> today1 \<le> today2"
  from a update_versions [of today1 created_at1 version_id1 recurring_id payload1 s0 s1 r1]
  obtain row1 where v1: "recurring_transaction_versions s1 =
      close_current_versions recurring_id today1 (recurring_transaction_versions s0)
      @ [new_version today1 created_at1 version_id1 recurring_id payload1 row1]"
    by auto
  from a update_versions [of today2 created_at2 version_id2 recurring_id payload2 s1 s2 r2]
  obtain row2 where v2: "recurring_transaction_versions s2 =
      close_current_versions recurring_id today2 (recurring_transaction_versions s1)
      @ [new_version today2 created_at2 version_id2 recurring_id payload2 row2]"
    by auto
  let ?nv1 = "new_version today1 created_at1 version_id1 recurring_id payload1 row1"
  let ?older = "?nv1\<lparr>effective_until := Some today2\<rparr>"
  let ?newer = "new_version today2 created_at2 version_id2 recurring_id payload2 row2"
  let ?base = "close_current_versions recurring_id today2
          (close_current_versions recurring_id today1 (recurring_transaction_versions s0))"
  from a have e1: "effective_date_of payload1 today1 \<le> today1"
    and e2: "effective_date_of payload2 today2 \<le> today2" and t: "today1 \<le> today2"
    by blast+
  from e1 t have le: "effective_date_of payload1 today1 \<le> today2"
    by (rule order_trans)
  have f1: "effective_from ?nv1 = effective_date_of payload1 today1"
      "ver_recurring_transaction_id ?nv1 = recurring_id" "effective_until ?nv1 = None"
      "ver_id ?nv1 = version_id1"
    by (simp_all add: new_version_def)
  have f2: "effective_from ?newer = effective_date_of payload2 today2"
      "ver_recurring_transaction_id ?newer = recurring_id" "effective_until ?newer = None"
      "ver_id ?newer = version_id2"
    by (simp_all add: new_version_def)
  have cl: "close_current_versions recurring_id today2 [?nv1] = [?older]"
    using le by (simp add: close_map close_version_def f1)
  have "close_current_versions recurring_id today2 (recurring_transaction_versions s1)
      = ?base @ [?older]"
    using cl by (simp only: v1 close_map map_append)
  then have vs: "recurring_transaction_versions s2 = ?base @ [?older, ?newer]"
    by (simp only: v2) simp
  have fo: "filter (\<lambda>v. ver_recurring_transaction_id v = recurring_id
                  \<and> effective_until v = None \<and> effective_from v \<le> today2) [?older, ?newer]
      = [?newer]"
    using e2 by (simp add: f2)
  have cur: "open_current s2 recurring_id today2 = [?newer]"
    by (simp only: open_current_def vs filter_append open_current_closed fo append_Nil)
  have fa: "filter (\<lambda>v. ver_recurring_transaction_id v = recurring_id \<and> effective_until v = None)
        [?older, ?newer] = [?newer]"
    by (simp add: f2)
  have all: "open_future s0 recurring_id today2 = [] \<longrightarrow> open_versions s2 recurring_id = [?newer]"
  proof
    assume "open_future s0 recurring_id today2 = []"
    then have "filter (\<lambda>v. ver_recurring_transaction_id v = recurring_id \<and> effective_until v = None)
        ?base = []"
      unfolding open_future_def by (rule open_versions_closed)
    then show "open_versions s2 recurring_id = [?newer]"
      by (simp only: open_versions_def vs filter_append fa append_Nil)
  qed
  have chain: "effective_date_of payload2 today2 = today2
           \<longrightarrow> effective_until ?older = Some (effective_from ?newer)"
    by (simp add: f2)
  have props: "recurring_transaction_versions s2 = ?base @ [?older, ?newer]
      \<and> ver_id ?older = version_id1 \<and> ver_recurring_transaction_id ?older = recurring_id
      \<and> effective_from ?older = effective_date_of payload1 today1
      \<and> effective_until ?older = Some today2
      \<and> ver_id ?newer = version_id2 \<and> ver_recurring_transaction_id ?newer = recurring_id
      \<and> effective_from ?newer = effective_date_of payload2 today2
      \<and> effective_until ?newer = None
      \<and> open_current s2 recurring_id today2 = [?newer]
      \<and> (open_future s0 recurring_id today2 = [] \<longrightarrow> open_versions s2 recurring_id = [?newer])
      \<and> (effective_date_of payload2 today2 = today2
           \<longrightarrow> effective_until ?older = Some (effective_from ?newer))"
    by (intro conjI vs cur all chain f2) (simp_all add: f1)
  show "\<exists>older newer.
      recurring_transaction_versions s2 = ?base @ [older, newer]
      \<and> ver_id older = version_id1 \<and> ver_recurring_transaction_id older = recurring_id
      \<and> effective_from older = effective_date_of payload1 today1
      \<and> effective_until older = Some today2
      \<and> ver_id newer = version_id2 \<and> ver_recurring_transaction_id newer = recurring_id
      \<and> effective_from newer = effective_date_of payload2 today2
      \<and> effective_until newer = None
      \<and> open_current s2 recurring_id today2 = [newer]
      \<and> (open_future s0 recurring_id today2 = [] \<longrightarrow> open_versions s2 recurring_id = [newer])
      \<and> (effective_date_of payload2 today2 = today2
           \<longrightarrow> effective_until older = Some (effective_from newer))"
    by (rule exI [of _ ?older], rule exI [of _ ?newer]) (rule props)
qed

text \<open>
  A second update back-dated to 5 March, made on 10 March, closes the first version on
  10 March and opens the next one from 5 March: the two dates differ. And with a change
  already scheduled for 2030, two immediate updates leave two open versions of the
  template, the pending one and the newest.
\<close>

theorem immediate_updates_chain_counterexample:
  "map_sum id fst
     (update_recurring_transaction ''2024-03-10'' ''2024-03-10T08:00:00+00:00'' ''v1'' ''r1''
        (ex_now_payload 150 None) (ex_db [])) = Inr ex_s1
   \<and> effective_date_of (ex_now_payload 150 None) ''2024-03-10'' \<le> ''2024-03-10''
   \<and> effective_date_of (ex_now_payload 200 (Some ''2024-03-05'')) ''2024-03-10'' \<le> ''2024-03-10''
   \<and> map_sum id (\<lambda>(s, r). map (\<lambda>v. (ver_id v, effective_from v, effective_until v))
                              (recurring_transaction_versions s))
        (update_recurring_transaction ''2024-03-10'' ''2024-03-10T08:00:00+00:00'' ''v2'' ''r1''
           (ex_now_payload 200 (Some ''2024-03-05'')) ex_s1)
       = Inr [(''v1'', ''2024-03-10'', Some ''2024-03-10''), (''v2'', ''2024-03-05'', None)]
   \<and> Some ''2024-03-10'' \<noteq> Some ''2024-03-05''
   \<and> map_sum id fst
        (update_recurring_transaction ''2024-03-10'' ''2024-03-10T08:00:00+00:00'' ''v1'' ''r1''
           (ex_now_payload 150 None) (ex_db [ex_version ''v0'' ''2030-01-01'' None]))
       = Inr ex_s1_pending
   \<and> map_sum id (\<lambda>(s, r). map ver_id (open_versions s ''r1''))
        (update_recurring_transaction ''2024-03-10'' ''2024-03-10T08:00:00+00:00'' ''v2'' ''r1''
           (ex_now_payload 200 None) ex_s1_pending)
       = Inr [''v0'', ''v2'']"
  by (simp add: update_simps open_versions_def ex_simps ex_upd_simps)

theorem immediate_updates_chain_witness:
  "map_sum id fst
     (update_recurring_transaction ''2024-03-10'' ''2024-03-10T08:00:00+00:00'' ''v1'' ''r1''
        (ex_now_payload 150 None) (ex_db [])) = Inr ex_s1
   \<and> effective_date_of (ex_now_payload 150 None) ''2024-03-10'' \<le> ''2024-03-10''
   \<and> effective_date_of (ex_now_payload 200 None) ''2024-03-12'' = ''2024-03-12''
   \<and> ''2024-03-10'' \<le> ''2024-03-12''
   \<and> open_future (ex_db []) ''r1'' ''2024-03-12'' = []
   \<and> map_sum id (\<lambda>(s, r). (map ver_id (open_versions s ''r1''),
                             map ver_id (open_current s ''r1'' ''2024-03-12''),
                             map effective_from (recurring_transaction_versions s),
                             map effective_until (recurring_transaction_versions s)))
        (update_recurring_transaction ''2024-03-12'' ''2024-03-12T08:00:00+00:00'' ''v2'' ''r1''
           (ex_now_payload 200 None) ex_s1)
       = Inr ([''v2''], [''v2''], [''2024-03-10'', ''2024-03-12''], [Some ''2024-03-12'', None])"
proof -
  let ?u2 = "update_recurring_transaction ''2024-03-12'' ''2024-03-12T08:00:00+00:00'' ''v2'' ''r1''
           (ex_now_payload 200 None) ex_s1"
  from ex_first_update obtain r1 where
    u1: "update_recurring_transaction ''2024-03-10'' ''2024-03-10T08:00:00+00:00'' ''v1'' ''r1''
         (ex_now_payload 150 None) (ex_db []) = Inr (ex_s1, r1)" ..
  have "\<exists>s r. ?u2 = Inr (s, r)"
    by (simp add: update_simps ex_simps ex_upd_simps)
  then obtain s2 r2 where u2: "?u2 = Inr (s2, r2)" by blast
  have e1: "effective_date_of (ex_now_payload 150 None) ''2024-03-10'' \<le> ''2024-03-10''"
    by (simp add: effective_date_of_def ex_simps)
  have e2: "effective_date_of (ex_now_payload 200 None) ''2024-03-12'' = ''2024-03-12''"
    by (simp add: effective_date_of_def ex_simps)
  have t: "''2024-03-10'' \<le> ''2024-03-12''" by simp
  have f: "open_future (ex_db []) ''r1'' ''2024-03-12'' = []"
    by (simp add: open_future_def ex_simps)
  have b: "close_current_versions ''r1'' ''2024-03-12''
          (close_current_versions ''r1'' ''2024-03-10'' (recurring_transaction_versions (ex_db [])))
       = []"
    by (simp add: close_current_versions_def ex_simps)
  from u1 u2 e1 e2 t immediate_updates_chain [of "''2024-03-10''" "''2024-03-10T08:00:00+00:00''"
      "''v1''" "''r1''" "ex_now_payload 150 None" "ex_db []" ex_s1 r1
      "''2024-03-12''" "''2024-03-12T08:00:00+00:00''" "''v2''" "ex_now_payload 200 None" s2 r2]
  obtain older newer where c:
    "recurring_transaction_versions s2 =
        close_current_versions ''r1'' ''2024-03-12''
          (close_current_versions ''r1'' ''2024-03-10'' (recurring_transaction_versions (ex_db [])))
        @ [older, newer]"
    "effective_from older = effective_date_of (ex_now_payload 150 None) ''2024-03-10''"
    "effective_until older = Some ''2024-03-12''"
    "ver_id newer = ''v2''"
    "effective_from newer = effective_date_of (ex_now_payload 200 None) ''2024-03-12''"
    "effective_until newer = None"
    "open_current s2 ''r1'' ''2024-03-12'' = [newer]"
    "open_future (ex_db []) ''r1'' ''2024-03-12'' = [] \<longrightarrow> open_versions s2 ''r1'' = [newer]"
    by auto
  have e1': "effective_date_of (ex_now_payload 150 None) ''2024-03-10'' = ''2024-03-10''"
    by (simp add: effective_date_of_def ex_simps)
  from c f b e1' e2 have
    "map ver_id (open_versions s2 ''r1'') = [''v2'']"
    "map ver_id (open_current s2 ''r1'' ''2024-03-12'') = [''v2'']"
    "map effective_from (recurring_transaction_versions s2) = [''2024-03-10'', ''2024-03-12'']"
    "map effective_until (recurring_transaction_versions s2) = [Some ''2024-03-12'', None]"
    by simp_all
  with u1 u2 e1 e2 t f show ?thesis by simp
qed

section \<open>The current open version\<close>












section \<open>Idempotence of materialization\<close>

lemma sql_eq_Some [simp]: "sql_eq (Some x) (Some y) \<longleftrightarrow> x = y"
  by (simp add: sql_eq_def)

lemma sql_eq_None [simp]: "\<not> sql_eq a None" "\<not> sql_eq None b"
  by (simp_all add: sql_eq_def split: option.splits)

lemma existing_transaction_iff:
  "already_created s budget_id rec date_str \<longleftrightarrow>
     (\<exists>t\<in>set (transactions s). tx_budget_id t = budget_id
         \<and> sql_eq (tx_category_id t) (rec_category_id rec) \<and> tx_title t = rec_title rec
         \<and> tx_amount t = rec_amount rec \<and> tx_date t = date_str \<and> tx_is_recurring t = 1)"
  by (auto simp: already_created_def existing_transaction_def find_None_iff)

lemma existing_transaction_null:
  "rec_category_id rec = None \<Longrightarrow> existing_transaction s budget_id rec date_str = None"
  by (simp add: existing_transaction_def find_None_iff)

lemma existing_transaction_generated:
  "rec_category_id rec = Some category_id \<Longrightarrow>
   already_created
     (s\<lparr>transactions := transactions s @
          [generated_transaction transaction_id created_at budget_id rec date_str]\<rparr>)
     budget_id rec date_str"
  by (simp add: existing_transaction_iff generated_transaction_def)

lemma create_missing_frame:
  "\<exists>new. transactions (fst (create_missing uuid4 now_iso budget_id rec dates (s, created)))
            = transactions s @ new
        \<and> snd (create_missing uuid4 now_iso budget_id rec dates (s, created)) = created @ new
        \<and> recurring_transactions (fst (create_missing uuid4 now_iso budget_id rec dates (s, created)))
            = recurring_transactions s"
proof (induction dates arbitrary: s created)
  case Nil
  show ?case by simp
next
  case (Cons date_str ds)
  show ?case
  proof (cases "existing_transaction s budget_id rec date_str")
    case (Some t)
    with Cons.IH [of s created] show ?thesis by simp
  next
    case None
    let ?t = "generated_transaction (uuid4 (length created)) (now_iso (length created))
                     budget_id rec date_str"
    from Cons.IH [of "s\<lparr>transactions := transactions s @ [?t]\<rparr>" "created @ [?t]"]
    obtain new where
      "transactions (fst (create_missing uuid4 now_iso budget_id rec ds
          (s\<lparr>transactions := transactions s @ [?t]\<rparr>, created @ [?t])))
        = transactions s @ [?t] @ new"
      "snd (create_missing uuid4 now_iso budget_id rec ds
          (s\<lparr>transactions := transactions s @ [?t]\<rparr>, created @ [?t])) = created @ [?t] @ new"
      "recurring_transactions (fst (create_missing uuid4 now_iso budget_id rec ds
          (s\<lparr>transactions := transactions s @ [?t]\<rparr>, created @ [?t])))
        = recurring_transactions s"
      by auto
    with None show ?thesis
      by (intro exI [of _ "[?t] @ new"]) (simp add: Let_def)
  qed
qed

lemma existing_transaction_mono:
  "transactions s' = transactions s @ new \<Longrightarrow>
   already_created s budget_id rec date_str \<Longrightarrow>
   already_created s' budget_id rec date_str"
  by (auto simp: existing_transaction_iff)

lemma create_missing_mono:
  "already_created s budget_id rec' date_str \<Longrightarrow>
   already_created (fst (create_missing uuid4 now_iso budget_id rec dates (s, created)))
     budget_id rec' date_str"
  using create_missing_frame [of uuid4 now_iso budget_id rec dates s created]
    existing_transaction_mono by blast

lemma create_missing_covers:
  "rec_category_id rec = Some category_id \<Longrightarrow>
   \<forall>date_str\<in>set dates.
     already_created (fst (create_missing uuid4 now_iso budget_id rec dates (s, created)))
       budget_id rec date_str"
proof (induction dates arbitrary: s created)
  case Nil
  show ?case by simp
next
  case (Cons date_str ds)
  show ?case
  proof (cases "existing_transaction s budget_id rec date_str")
    case (Some t)
    then have "already_created s budget_id rec date_str" by (simp add: already_created_def)
    then have "already_created (fst (create_missing uuid4 now_iso budget_id rec ds (s, created)))
       budget_id rec date_str"
      by (rule create_missing_mono)
    with Some Cons.IH [OF Cons.prems, of s created] show ?thesis by simp
  next
    case None
    let ?t = "generated_transaction (uuid4 (length created)) (now_iso (length created))
                     budget_id rec date_str"
    let ?s = "s\<lparr>transactions := transactions s @ [?t]\<rparr>"
    from Cons.prems have "already_created ?s budget_id rec date_str"
      by (rule existing_transaction_generated)
    then have "already_created
        (fst (create_missing uuid4 now_iso budget_id rec ds (?s, created @ [?t])))
        budget_id rec date_str"
      by (rule create_missing_mono)
    with None Cons.IH [OF Cons.prems, of ?s "created @ [?t]"] show ?thesis by (simp add: Let_def)
  qed
qed

lemma create_missing_nothing:
  "\<forall>date_str\<in>set dates. already_created s budget_id rec date_str \<Longrightarrow>
   create_missing uuid4 now_iso budget_id rec dates (s, created) = (s, created)"
  by (induction dates) (auto simp: already_created_def)

lemma process_rows_covers:
  "process_rows fromisoformat y m d uuid4 now_iso budget_id recs acc = Inr acc' \<Longrightarrow>
   \<forall>rec\<in>set recs. rec_category_id rec \<noteq> None \<Longrightarrow>
   recurring_transactions (fst acc') = recurring_transactions (fst acc)
   \<and> (\<exists>new. transactions (fst acc') = transactions (fst acc) @ new \<and> snd acc' = snd acc @ new)
   \<and> (\<forall>rec\<in>set recs. \<exists>dates. dates_to_create fromisoformat y m d rec = Inr dates
         \<and> (\<forall>date_str\<in>set dates. already_created (fst acc') budget_id rec date_str))"
proof (induction recs arbitrary: acc)
  case Nil
  then show ?case by simp
next
  case (Cons rec recs)
  from Cons.prems(1) obtain dates where
    dt: "dates_to_create fromisoformat y m d rec = Inr dates"
    and rest: "process_rows fromisoformat y m d uuid4 now_iso budget_id recs
            (create_missing uuid4 now_iso budget_id rec dates acc) = Inr acc'"
    by (auto split: sum.splits)
  from Cons.prems(2) obtain category_id where cat: "rec_category_id rec = Some category_id"
    by auto
  from Cons.prems(2) have cats: "\<forall>rec\<in>set recs. rec_category_id rec \<noteq> None"
    by simp
  let ?mid = "create_missing uuid4 now_iso budget_id rec dates acc"
  from Cons.IH [OF rest cats] have
    ih1: "recurring_transactions (fst acc') = recurring_transactions (fst ?mid)"
    and ih2: "\<exists>new. transactions (fst acc') = transactions (fst ?mid) @ new \<and> snd acc' = snd ?mid @ new"
    and ih3: "\<forall>rec\<in>set recs. \<exists>dates. dates_to_create fromisoformat y m d rec = Inr dates
         \<and> (\<forall>date_str\<in>set dates. already_created (fst acc') budget_id rec date_str)"
    by blast+
  from create_missing_frame [of uuid4 now_iso budget_id rec dates "fst acc" "snd acc"]
  obtain new1 where
    f1: "transactions (fst ?mid) = transactions (fst acc) @ new1"
    and f2: "snd ?mid = snd acc @ new1"
    and f3: "recurring_transactions (fst ?mid) = recurring_transactions (fst acc)"
    by auto
  from ih2 obtain new2 where
    g1: "transactions (fst acc') = transactions (fst ?mid) @ new2"
    and g2: "snd acc' = snd ?mid @ new2"
    by blast
  have cov: "\<forall>date_str\<in>set dates. already_created (fst acc') budget_id rec date_str"
  proof
    fix date_str assume "date_str \<in> set dates"
    with create_missing_covers [OF cat, of dates uuid4 now_iso budget_id "fst acc" "snd acc"]
    have "already_created (fst ?mid) budget_id rec date_str" by simp
    with g1 show "already_created (fst acc') budget_id rec date_str"
      by (rule existing_transaction_mono)
  qed
  have "transactions (fst acc') = transactions (fst acc) @ (new1 @ new2) \<and> snd acc' = snd acc @ (new1 @ new2)"
    using f1 f2 g1 g2 by simp
  then have ex: "\<exists>new. transactions (fst acc') = transactions (fst acc) @ new \<and> snd acc' = snd acc @ new"
    by blast
  from ih1 f3 have rt: "recurring_transactions (fst acc') = recurring_transactions (fst acc)"
    by simp
  from dt cov ih3 have "\<forall>r\<in>set (rec # recs). \<exists>dates. dates_to_create fromisoformat y m d r = Inr dates
         \<and> (\<forall>date_str\<in>set dates. already_created (fst acc') budget_id r date_str)"
    by simp
  with rt ex show ?case by blast
qed

lemma process_rows_nothing:
  "\<forall>rec\<in>set recs. \<exists>dates. dates_to_create fromisoformat y m d rec = Inr dates
         \<and> (\<forall>date_str\<in>set dates. already_created s budget_id rec date_str) \<Longrightarrow>
   process_rows fromisoformat y m d uuid4 now_iso budget_id recs (s, created) = Inr (s, created)"
proof (induction recs)
  case Nil
  show ?case by simp
next
  case (Cons rec recs)
  from Cons.prems obtain dates where
    dt: "dates_to_create fromisoformat y m d rec = Inr dates"
    and cov: "\<forall>date_str\<in>set dates. already_created s budget_id rec date_str"
    by auto
  from cov have "create_missing uuid4 now_iso budget_id rec dates (s, created) = (s, created)"
    by (rule create_missing_nothing)
  moreover from Cons have "process_rows fromisoformat y m d uuid4 now_iso budget_id recs (s, created) = Inr (s, created)"
    by simp
  ultimately show ?case using dt by simp
qed

text \<open>
  When every active template of the budget has a category, a second call for the same
  budget and day inserts nothing: after the first call every due date of every active
  template has a transaction with the template's budget, category, title and amount, the
  date, and \<^verbatim>\<open>is_recurring = 1\<close>, which the existence check finds.
\<close>

lemma materialize_idempotent_with_category:
  assumes run: "process_recurring_transactions fromisoformat y m d uuid4 now_iso budget_id s
                  = Inr (s1, created)"
    and cats: "\<forall>rec\<in>set (active_recurring s budget_id). rec_category_id rec \<noteq> None"
  shows "transactions s1 = transactions s @ created"
    and "process_recurring_transactions fromisoformat y m d uuid4' now_iso' budget_id s1
           = Inr (s1, [])"
    and "\<forall>rec\<in>set (active_recurring s budget_id). \<exists>dates.
           dates_to_create fromisoformat y m d rec = Inr dates
           \<and> (\<forall>date_str\<in>set dates. \<exists>t\<in>set (transactions s1).
                 dedup_key t = (budget_id, rec_category_id rec, rec_title rec, rec_amount rec,
                                date_str, 1))"
proof -
  from run have p: "process_rows fromisoformat y m d uuid4 now_iso budget_id
      (active_recurring s budget_id) (s, []) = Inr (s1, created)"
    by (simp add: process_recurring_transactions_def)
  from process_rows_covers [OF p cats] have
    rt: "recurring_transactions s1 = recurring_transactions s"
    and tx: "transactions s1 = transactions s @ created"
    and cov: "\<forall>rec\<in>set (active_recurring s budget_id). \<exists>dates.
         dates_to_create fromisoformat y m d rec = Inr dates
         \<and> (\<forall>date_str\<in>set dates. already_created s1 budget_id rec date_str)"
    by auto
  show "transactions s1 = transactions s @ created" by (rule tx)
  from rt have "active_recurring s1 budget_id = active_recurring s budget_id"
    by (simp add: active_recurring_def)
  with cov have "process_rows fromisoformat y m d uuid4' now_iso' budget_id
      (active_recurring s1 budget_id) (s1, []) = Inr (s1, [])"
    using process_rows_nothing [of "active_recurring s budget_id" fromisoformat y m d s1
        budget_id uuid4' now_iso' "[]"]
    by simp
  then show "process_recurring_transactions fromisoformat y m d uuid4' now_iso' budget_id s1
           = Inr (s1, [])"
    by (simp add: process_recurring_transactions_def)
  show "\<forall>rec\<in>set (active_recurring s budget_id). \<exists>dates.
           dates_to_create fromisoformat y m d rec = Inr dates
           \<and> (\<forall>date_str\<in>set dates. \<exists>t\<in>set (transactions s1).
                 dedup_key t = (budget_id, rec_category_id rec, rec_title rec, rec_amount rec,
                                date_str, 1))"
  proof
    fix rec assume r: "rec \<in> set (active_recurring s budget_id)"
    with cats obtain category_id where c: "rec_category_id rec = Some category_id" by auto
    from r cov obtain dates where
      dt: "dates_to_create fromisoformat y m d rec = Inr dates"
      and ac: "\<forall>date_str\<in>set dates. already_created s1 budget_id rec date_str"
      by blast
    have "\<forall>date_str\<in>set dates. \<exists>t\<in>set (transactions s1).
                 dedup_key t = (budget_id, rec_category_id rec, rec_title rec, rec_amount rec,
                                date_str, 1)"
    proof
      fix date_str assume "date_str \<in> set dates"
      with ac have "already_created s1 budget_id rec date_str" by blast
      then obtain t where t: "t \<in> set (transactions s1)" "tx_budget_id t = budget_id"
        "sql_eq (tx_category_id t) (rec_category_id rec)" "tx_title t = rec_title rec"
        "tx_amount t = rec_amount rec" "tx_date t = date_str" "tx_is_recurring t = 1"
        unfolding existing_transaction_iff by blast
      from t(3) c have "tx_category_id t = rec_category_id rec"
        by (cases "tx_category_id t") simp_all
      with t show "\<exists>t\<in>set (transactions s1).
                 dedup_key t = (budget_id, rec_category_id rec, rec_title rec, rec_amount rec,
                                date_str, 1)"
        by (intro bexI [of _ t]) (simp_all add: dedup_key_def)
    qed
    with dt show "\<exists>dates. dates_to_create fromisoformat y m d rec = Inr dates
           \<and> (\<forall>date_str\<in>set dates. \<exists>t\<in>set (transactions s1).
                 dedup_key t = (budget_id, rec_category_id rec, rec_title rec, rec_amount rec,
                                date_str, 1))"
      by blast
  qed
qed

lemmas materialize_simps = process_recurring_transactions_def active_recurring_def
  dates_to_create_def Let_def day_or_def cal_simps fmt_simps existing_transaction_def
  generated_transaction_def ex_uuid4_def ex_uuid4_second_def ex_now_iso_def

lemma materialize_with_category_example:
  "process_recurring_transactions ex_fromisoformat 2024 3 5 ex_uuid4 ex_now_iso ''b1'' (ex_db [])
     = Inr (ex_m1, [ex_tx])
   \<and> process_recurring_transactions ex_fromisoformat 2024 3 5 ex_uuid4_second ex_now_iso ''b1'' ex_m1
     = Inr (ex_m1, [])"
  by (simp add: materialize_simps ex_db_def ex_rec_def ex_m1_def ex_tx_def)

text \<open>
  C1. The claim fails on a template without category (\<^verbatim>\<open>category_id\<close> null): the
  existence check compares the category with \<^verbatim>\<open>=\<close>, which no row satisfies, so every
  call inserts every due occurrence again. For the budget \<^verbatim>\<open>b1\<close> on 5 March 2024 the
  first call creates the transaction of 1 March and the second call, in place of returning
  the empty list, creates it once more: the table then holds two rows with one and the same
  tuple of budget, category, title, amount, date and \<^verbatim>\<open>is_recurring\<close>.
\<close>

theorem materialize_null_category_duplicates:
  "process_recurring_transactions ex_fromisoformat 2024 3 5 ex_uuid4 ex_now_iso ''b1''
       (ex_db_null [])
     = Inr (ex_db_null [ex_tx_null ''t0''], [ex_tx_null ''t0''])
   \<and> process_recurring_transactions ex_fromisoformat 2024 3 5 ex_uuid4_second ex_now_iso ''b1''
       (ex_db_null [ex_tx_null ''t0''])
     = Inr (ex_db_null [ex_tx_null ''t0'', ex_tx_null ''u0''], [ex_tx_null ''u0''])
   \<and> map dedup_key (transactions (ex_db_null [ex_tx_null ''t0'', ex_tx_null ''u0'']))
     = [(''b1'', None, ''Rent'', 100, ''2024-03-01'', 1),
        (''b1'', None, ''Rent'', 100, ''2024-03-01'', 1)]"
  by (simp add: materialize_simps sql_eq_def dedup_key_def ex_db_null_def ex_rec_null_def
      ex_tx_null_def)

end
